theory Spec2Isabelle
  imports Complex_Main "HOL-Library.AList" "HOL-Library.Multiset"
begin

section \<open>Numbers\<close>

text \<open>
  JavaScript numbers are modelled as exact reals. The value NaN is written out where the
  code can produce it (the age of a document without a readable date, a dense similarity
  over arrays of different lengths). Binary floating-point rounding error is outside the
  model. \<open>Math.round\<close> rounds half up: \<open>Math.round(x) = floor(x + 0.5)\<close>.
\<close>

definition Math_round :: "real \<Rightarrow> int" where
  "Math_round x = \<lfloor>x + 1 / 2\<rfloor>"

text \<open>\<^verbatim>\<open>Math.round(x * 1000) / 1000\<close> and \<^verbatim>\<open>Math.round(x * 100) / 100\<close>.\<close>

definition round3 :: "real \<Rightarrow> real" where
  "round3 x = real_of_int (Math_round (x * 1000)) / 1000"

definition round2 :: "real \<Rightarrow> real" where
  "round2 x = real_of_int (Math_round (x * 100)) / 100"

text \<open>A number has at most \<open>n\<close> decimal places when it is an integer multiple of \<open>10^-n\<close>.\<close>

definition decimals :: "nat \<Rightarrow> real \<Rightarrow> bool" where
  "decimals n x = (\<exists>k::int. x = real_of_int k / 10 ^ n)"

section \<open>Confidence scorer (confidenceScorer.js)\<close>

text \<open>
  The four caps are read once from the environment:
  \<^verbatim>\<open>parseFloat(process.env.WEIGHT_AGE_PENALTY) || 0.3\<close>. A variable that is unset or
  does not parse gives NaN, which is falsy, as is a parsed 0; both select the default.
\<close>

record env =
  WEIGHT_AGE_PENALTY :: "real option"
  WEIGHT_CONTRADICTION_PENALTY :: "real option"
  WEIGHT_DRIFT_PENALTY :: "real option"
  WEIGHT_SUPPORT_PENALTY :: "real option"
  EMBEDDING_PROVIDER :: "string option"

definition parseFloat_or :: "real option \<Rightarrow> real \<Rightarrow> real" where
  "parseFloat_or v d = (case v of None \<Rightarrow> d | Some x \<Rightarrow> if x = 0 then d else x)"

definition MAX_AGE_PENALTY :: "env \<Rightarrow> real" where
  "MAX_AGE_PENALTY e = parseFloat_or (WEIGHT_AGE_PENALTY e) 0.3"

definition MAX_CONTRADICTION_PENALTY :: "env \<Rightarrow> real" where
  "MAX_CONTRADICTION_PENALTY e = parseFloat_or (WEIGHT_CONTRADICTION_PENALTY e) 0.4"

definition MAX_DRIFT_PENALTY :: "env \<Rightarrow> real" where
  "MAX_DRIFT_PENALTY e = parseFloat_or (WEIGHT_DRIFT_PENALTY e) 0.2"

definition MAX_SUPPORT_PENALTY :: "env \<Rightarrow> real" where
  "MAX_SUPPORT_PENALTY e = parseFloat_or (WEIGHT_SUPPORT_PENALTY e) 0.1"

definition default_env :: env where
  "default_env = \<lparr>WEIGHT_AGE_PENALTY = None, WEIGHT_CONTRADICTION_PENALTY = None,
     WEIGHT_DRIFT_PENALTY = None, WEIGHT_SUPPORT_PENALTY = None, EMBEDDING_PROVIDER = None\<rparr>"

record scoring_params =
  agePenalty :: real
  contradictionPenalty :: real
  driftPenalty :: real
  supportingDocsCount :: real

record breakdown =
  starting_confidence :: real
  age_penalty :: real
  contradiction_penalty :: real
  drift_penalty :: real
  support_penalty :: real
  total_penalty :: real
  final_confidence :: real

record scoring =
  confidence :: real
  breakdown :: breakdown

text \<open>The applied penalties, in the order the code subtracts them.\<close>

definition appliedAgePenalty :: "env \<Rightarrow> scoring_params \<Rightarrow> real" where
  "appliedAgePenalty e p = min (agePenalty p) (MAX_AGE_PENALTY e)"

definition appliedContradictionPenalty :: "env \<Rightarrow> scoring_params \<Rightarrow> real" where
  "appliedContradictionPenalty e p = min (contradictionPenalty p) (MAX_CONTRADICTION_PENALTY e)"

definition appliedDriftPenalty :: "env \<Rightarrow> scoring_params \<Rightarrow> real" where
  "appliedDriftPenalty e p = min (driftPenalty p) (MAX_DRIFT_PENALTY e)"

definition appliedSupportPenalty :: "env \<Rightarrow> scoring_params \<Rightarrow> real" where
  "appliedSupportPenalty e p =
     (if supportingDocsCount p = 0 then MAX_SUPPORT_PENALTY e
      else if supportingDocsCount p < 3
        then MAX_SUPPORT_PENALTY e * (1 - supportingDocsCount p / 3)
      else 0)"

text \<open>The confidence after the four subtractions and the clamp, before it is rounded.\<close>

definition clampedConfidence :: "env \<Rightarrow> scoring_params \<Rightarrow> real" where
  "clampedConfidence e p =
     max 0 (min 1 (1 - appliedAgePenalty e p - appliedContradictionPenalty e p
                     - appliedDriftPenalty e p - appliedSupportPenalty e p))"

definition calculateConfidence :: "env \<Rightarrow> scoring_params \<Rightarrow> scoring" where
  "calculateConfidence e p =
     (let confidence = round2 (clampedConfidence e p)
      in \<lparr>confidence = confidence,
          breakdown = \<lparr>starting_confidence = 1,
            age_penalty = round3 (appliedAgePenalty e p),
            contradiction_penalty = round3 (appliedContradictionPenalty e p),
            drift_penalty = round3 (appliedDriftPenalty e p),
            support_penalty = round3 (appliedSupportPenalty e p),
            total_penalty = round3 (1 - confidence),
            final_confidence = confidence\<rparr>\<rparr>)"

record signals =
  hasContradictions :: bool
  hasSignificantDrift :: bool
  freshnessStatus :: string

definition determineRiskLevel :: "real \<Rightarrow> signals \<Rightarrow> string" where
  "determineRiskLevel c s =
     (if hasContradictions s \<or> c < 0.4 then ''high''
      else if hasSignificantDrift s \<or> freshnessStatus s = ''critical'' \<or> c < 0.7 then ''medium''
      else ''low'')"

definition shouldFlagDecay :: "real \<Rightarrow> string \<Rightarrow> bool" where
  "shouldFlagDecay c riskLevel = (c < 1 \<or> riskLevel \<noteq> ''low'')"

section \<open>Strings\<close>

text \<open>
  Strings are modelled as ASCII text: a character is a letter, digit or space only when it
  is one in ASCII, and \<open>toLowerCase\<close> maps \<open>A\<close>..\<open>Z\<close> only.
\<close>

definition isDigit :: "char \<Rightarrow> bool" where
  "isDigit c = (let n = (of_char c :: nat) in 48 \<le> n \<and> n \<le> 57)"

text \<open>The class \<open>\w\<close> of a regular expression: letters, digits and the underscore.\<close>

definition isWordChar :: "char \<Rightarrow> bool" where
  "isWordChar c = (let n = (of_char c :: nat) in
     (48 \<le> n \<and> n \<le> 57) \<or> (65 \<le> n \<and> n \<le> 90) \<or> (97 \<le> n \<and> n \<le> 122) \<or> n = 95)"

text \<open>The class \<open>\s\<close>, and what \<open>trim\<close> removes: tab, line feed, vertical tab, form feed,
  carriage return, space.\<close>

definition isSpace :: "char \<Rightarrow> bool" where
  "isSpace c = (let n = (of_char c :: nat) in (9 \<le> n \<and> n \<le> 13) \<or> n = 32)"

definition lowerChar :: "char \<Rightarrow> char" where
  "lowerChar c = (let n = (of_char c :: nat) in if 65 \<le> n \<and> n \<le> 90 then char_of (n + 32) else c)"

definition toLowerCase :: "string \<Rightarrow> string" where
  "toLowerCase s = map lowerChar s"

definition trim :: "string \<Rightarrow> string" where
  "trim s = rev (dropWhile isSpace (rev (dropWhile isSpace s)))"

definition digitChar :: "nat \<Rightarrow> char" where
  "digitChar d = char_of (48 + d)"

text \<open>Decimal notation of an integer, as a template literal prints it.\<close>

fun show_nat :: "nat \<Rightarrow> string" where
  "show_nat n = (if n < 10 then [digitChar n] else show_nat (n div 10) @ [digitChar (n mod 10)])"

definition show_int :: "int \<Rightarrow> string" where
  "show_int i = (if i < 0 then CHR ''-'' # show_nat (nat (- i)) else show_nat (nat i))"

section \<open>Freshness evaluator (freshnessEvaluator.js)\<close>

text \<open>
  What a date field of a document can hold. \<open>Time t\<close> is a Date object or a date string
  that denotes the instant \<open>t\<close>, in milliseconds since the epoch; \<open>Invalid\<close> is a
  non-empty value that \<open>new Date\<close> cannot read (it gives an Invalid Date, whose time is
  NaN). \<open>new Date(undefined)\<close> is an Invalid Date too, but \<open>new Date(null)\<close> is the epoch.
\<close>

datatype jsdate = Undefined | Null | Invalid | Time int

definition truthy :: "jsdate \<Rightarrow> bool" where
  "truthy d = (case d of Undefined \<Rightarrow> False | Null \<Rightarrow> False | Invalid \<Rightarrow> True | Time t \<Rightarrow> True)"

text \<open>The time value of \<open>new Date(d)\<close>; \<open>None\<close> is NaN.\<close>

definition new_Date :: "jsdate \<Rightarrow> int option" where
  "new_Date d = (case d of Undefined \<Rightarrow> None | Null \<Rightarrow> Some 0 | Invalid \<Rightarrow> None | Time t \<Rightarrow> Some t)"

record thresholds =
  warning :: int
  critical :: int

definition DECAY_THRESHOLDS :: "(string \<times> thresholds) list" where
  "DECAY_THRESHOLDS =
     [(''SOP'', \<lparr>warning = 30, critical = 90\<rparr>),
      (''Policy'', \<lparr>warning = 60, critical = 180\<rparr>),
      (''Guide'', \<lparr>warning = 90, critical = 365\<rparr>),
      (''Spec'', \<lparr>warning = 45, critical = 120\<rparr>),
      (''Notes'', \<lparr>warning = 180, critical = 365\<rparr>)]"

text \<open>\<^verbatim>\<open>DECAY_THRESHOLDS[type] || DECAY_THRESHOLDS.Notes\<close>. A type that names a member
  every object inherits (\<open>constructor\<close>, \<open>toString\<close>, ...) is outside the model.\<close>

definition getThresholds :: "string \<Rightarrow> thresholds" where
  "getThresholds t =
     (case map_of DECAY_THRESHOLDS t of Some th \<Rightarrow> th
      | None \<Rightarrow> \<lparr>warning = 180, critical = 365\<rparr>)"

text \<open>The current time \<open>new Date()\<close> is the parameter \<open>now\<close>, in milliseconds.
  \<open>Math.floor\<close> of the quotient is integer division; the age of an Invalid Date is NaN.\<close>

definition calculateAgeDays :: "int \<Rightarrow> jsdate \<Rightarrow> int option" where
  "calculateAgeDays now updatedAt =
     (case new_Date updatedAt of None \<Rightarrow> None
      | Some updated \<Rightarrow> Some ((now - updated) div (1000 * 60 * 60 * 24)))"

text \<open>\<open>a >= t\<close> on numbers: false when \<open>a\<close> is NaN.\<close>

definition ge_num :: "int option \<Rightarrow> int \<Rightarrow> bool" where
  "ge_num a t = (case a of None \<Rightarrow> False | Some x \<Rightarrow> t \<le> x)"

record reason =
  rtype :: string
  description :: string
  sources :: "string list"

datatype embedding = Sparse "(string \<times> real) list" | Dense "real list"

record version =
  versionNumber :: int
  v_content :: "string option"
  v_embedding :: "embedding option"
  v_summary :: "string option"

text \<open>
  A document object. \<open>content\<close> is \<open>None\<close> when the field is null, missing or not a
  string; \<open>embedding\<close> is \<open>None\<close> when it is null or missing; an entry of \<open>versions\<close>
  is \<open>None\<close> when the array holds null or undefined there.
\<close>

record document =
  doc_id :: string
  doc_title :: string
  doc_type :: string
  content :: "string option"
  currentVersion :: int
  updatedAt :: jsdate
  lastVerifiedAt :: jsdate
  embedding :: "embedding option"
  versions :: "version option list option"

record freshness =
  f_status :: string
  f_ageDays :: "int option"
  f_thresholds :: thresholds
  f_penalty :: real
  f_decayReason :: "reason option"

definition evaluateFreshness :: "int \<Rightarrow> document \<Rightarrow> freshness" where
  "evaluateFreshness now document =
     (let th = getThresholds (doc_type document);
          referenceDate = (if truthy (lastVerifiedAt document) then lastVerifiedAt document
                           else updatedAt document);
          ageDays = calculateAgeDays now referenceDate
      in case ageDays of
           None \<Rightarrow> \<lparr>f_status = ''fresh'', f_ageDays = ageDays, f_thresholds = th,
                     f_penalty = round3 0, f_decayReason = None\<rparr>
         | Some age \<Rightarrow>
             if ge_num ageDays (critical th) then
               \<lparr>f_status = ''critical'', f_ageDays = ageDays, f_thresholds = th,
                f_penalty = round3 0.3,
                f_decayReason = Some \<lparr>rtype = ''time'',
                  description = ''Document last updated '' @ show_int age @ '' days ago (''
                    @ doc_type document @ '' critical threshold: '' @ show_int (critical th)
                    @ '' days)'',
                  sources = []\<rparr>\<rparr>
             else if ge_num ageDays (warning th) then
               (let range = critical th - warning th;
                    overWarning = age - warning th
                in \<lparr>f_status = ''warning'', f_ageDays = ageDays, f_thresholds = th,
                    f_penalty = round3 (0.1 + 0.2 * (real_of_int overWarning / real_of_int range)),
                    f_decayReason = Some \<lparr>rtype = ''time'',
                      description = ''Document last updated '' @ show_int age @ '' days ago (''
                        @ doc_type document @ '' warning threshold: '' @ show_int (warning th)
                        @ '' days)'',
                      sources = []\<rparr>\<rparr>)
             else \<lparr>f_status = ''fresh'', f_ageDays = ageDays, f_thresholds = th,
                   f_penalty = round3 0, f_decayReason = None\<rparr>)"

section \<open>Text analysis (utils/textAnalysis.js)\<close>

subsection \<open>Vectors and cosine similarity\<close>

text \<open>
  The TF-IDF statistics come from the library \<open>natural\<close>, which is not part of the
  repository: \<open>listTerms\<close> stands for \<^verbatim>\<open>tfidf.addDocument(text); tfidf.listTerms(0)\<close>
  and gives the terms of a text with their weights. It is a parameter of every function
  that reaches it.
\<close>

type_synonym tfidf = "string \<Rightarrow> (string \<times> real) list"

definition generateTfIdfEmbedding :: "tfidf \<Rightarrow> string option \<Rightarrow> embedding" where
  "generateTfIdfEmbedding listTerms text =
     (case text of None \<Rightarrow> Sparse []
      | Some t \<Rightarrow>
          if t = [] then Sparse []
          else Sparse (fold (\<lambda>(term, w) terms.
                  if w > 0.1 then AList.update term (round3 w) terms else terms)
                (listTerms (toLowerCase t)) []))"

text \<open>
  The own enumerable properties of a vector: the terms of a sparse vector, the indices
  \<open>"0"\<close>, \<open>"1"\<close>, ... of a dense one. \<open>vec[term] || 0\<close> reads a property, with 0 for
  a missing one. A term that names an inherited member of an object is outside the model.
\<close>

definition entries :: "embedding \<Rightarrow> (string \<times> real) list" where
  "entries v = (case v of Sparse al \<Rightarrow> al | Dense xs \<Rightarrow> zip (map show_nat [0..<length xs]) xs)"

definition keys :: "embedding \<Rightarrow> string list" where
  "keys v = remdups (map fst (entries v))"

definition get_or_0 :: "embedding \<Rightarrow> string \<Rightarrow> real" where
  "get_or_0 v term = (case map_of (entries v) term of None \<Rightarrow> 0 | Some w \<Rightarrow> w)"

definition cosineSimilarity :: "embedding option \<Rightarrow> embedding option \<Rightarrow> real" where
  "cosineSimilarity vec1 vec2 =
     (case (vec1, vec2) of
        (Some v1, Some v2) \<Rightarrow>
          if keys v1 = [] \<or> keys v2 = [] then 0
          else
            (let allTerms = remdups (keys v1 @ keys v2);
                 dotProduct = sum_list (map (\<lambda>t. get_or_0 v1 t * get_or_0 v2 t) allTerms);
                 norm1 = sum_list (map (\<lambda>t. get_or_0 v1 t * get_or_0 v1 t) allTerms);
                 norm2 = sum_list (map (\<lambda>t. get_or_0 v2 t * get_or_0 v2 t) allTerms);
                 magnitude = sqrt norm1 * sqrt norm2
             in if magnitude = 0 then 0 else round3 (dotProduct / magnitude))
      | _ \<Rightarrow> 0)"

definition calculateSemanticDifference :: "tfidf \<Rightarrow> string option \<Rightarrow> string option \<Rightarrow> real" where
  "calculateSemanticDifference listTerms text1 text2 =
     (let vec1 = generateTfIdfEmbedding listTerms text1;
          vec2 = generateTfIdfEmbedding listTerms text2;
          similarity = cosineSimilarity (Some vec1) (Some vec2)
      in round3 (1 - similarity))"

subsection \<open>Dense similarity (utils/vectorUtils.js)\<close>

datatype jsnum = NaN | Num real

text \<open>\<open>emb2[i]\<close>: \<open>None\<close> is undefined, which makes every product with it NaN.\<close>

definition index :: "embedding \<Rightarrow> nat \<Rightarrow> real option" where
  "index v i = (case v of Dense ys \<Rightarrow> (if i < length ys then Some (ys ! i) else None)
                | Sparse al \<Rightarrow> map_of al (show_nat i))"

text \<open>The loop over \<open>emb1\<close> from index \<open>i\<close>: the three sums, or \<open>None\<close> when a sum is NaN.\<close>

fun dense_sums :: "real list \<Rightarrow> nat \<Rightarrow> embedding \<Rightarrow> (real \<times> real \<times> real) option" where
  "dense_sums [] i emb2 = Some (0, 0, 0)"
| "dense_sums (x # xs) i emb2 =
     (case index emb2 i of None \<Rightarrow> None
      | Some y \<Rightarrow>
          (case dense_sums xs (Suc i) emb2 of None \<Rightarrow> None
           | Some (dotProduct, norm1, norm2) \<Rightarrow>
               Some (x * y + dotProduct, x * x + norm1, y * y + norm2)))"

definition calculateSimilarity :: "embedding \<Rightarrow> embedding \<Rightarrow> jsnum" where
  "calculateSimilarity emb1 emb2 =
     (case emb1 of
        Sparse al \<Rightarrow> Num (cosineSimilarity (Some emb1) (Some emb2))
      | Dense xs \<Rightarrow>
          (case dense_sums xs 0 emb2 of None \<Rightarrow> NaN
           | Some (dotProduct, norm1, norm2) \<Rightarrow>
               (let magnitude = sqrt norm1 * sqrt norm2
                in if magnitude = 0 then Num 0 else Num (dotProduct / magnitude))))"

subsection \<open>Key statements\<close>

definition isTerminator :: "char \<Rightarrow> bool" where
  "isTerminator c = (c = CHR ''.'' \<or> c = CHR ''!'' \<or> c = CHR ''?'')"

text \<open>\<^verbatim>\<open>text.split(/[.!?]+/)\<close>: the pieces between the maximal runs of terminators;
  \<open>cur\<close> holds the piece being read, reversed.\<close>

function split_sentences :: "string \<Rightarrow> string \<Rightarrow> string list" where
  "split_sentences cur [] = [rev cur]"
| "split_sentences cur (c # cs) =
     (if isTerminator c then rev cur # split_sentences [] (dropWhile isTerminator cs)
      else split_sentences (c # cur) cs)"
  by pat_completeness auto
termination
  by (relation "measure (\<lambda>(cur, s). length s)")
     (auto simp: less_Suc_eq_le length_dropWhile_le)

text \<open>\<open>\b\<close> holds between two neighbours when exactly one of them is a word character;
  the start and the end of the string count as no word character.\<close>

definition boundary :: "char option \<Rightarrow> char option \<Rightarrow> bool" where
  "boundary a b = ((case a of None \<Rightarrow> False | Some c \<Rightarrow> isWordChar c)
                   \<noteq> (case b of None \<Rightarrow> False | Some c \<Rightarrow> isWordChar c))"

definition head_opt :: "string \<Rightarrow> char option" where
  "head_opt s = (case s of [] \<Rightarrow> None | c # cs \<Rightarrow> Some c)"

text \<open>\<^verbatim>\<open>/\bp\b/.test(s)\<close> for a literal, non-empty \<open>p\<close>: \<open>prev\<close> is the character
  before the position tried, and the scan moves right until a position matches.\<close>

fun test_word :: "string \<Rightarrow> char option \<Rightarrow> string \<Rightarrow> bool" where
  "test_word p prev [] = False"
| "test_word p prev (c # cs) =
     ((take (length p) (c # cs) = p \<and> boundary prev (Some c)
         \<and> boundary (Some (last p)) (head_opt (drop (length p) (c # cs))))
      \<or> test_word p (Some c) cs)"

text \<open>A pattern \<^verbatim>\<open>/\b(w1|w2|...)\b/i\<close>: some alternative matches, letter case ignored.\<close>

definition test_words_i :: "string list \<Rightarrow> string \<Rightarrow> bool" where
  "test_words_i ws s = (\<exists>w \<in> set ws. test_word w None (toLowerCase s))"

text \<open>
  \<^verbatim>\<open>/\b(\d+\.?\d*)\b/.test(s)\<close>. A match starts at a digit after a boundary and takes
  the whole run of digits. If a word character follows the run, no shorter or longer
  attempt ends at a boundary; otherwise the run alone already does. So the optional
  point and the digits after it never decide whether the pattern matches.
\<close>

fun test_number :: "char option \<Rightarrow> string \<Rightarrow> bool" where
  "test_number prev [] = False"
| "test_number prev (c # cs) =
     ((isDigit c \<and> boundary prev (Some c)
         \<and> boundary (Some c) (head_opt (dropWhile isDigit cs)))
      \<or> test_number (Some c) cs)"

definition factual :: "string \<Rightarrow> bool" where
  "factual sentence =
     (test_words_i [''must'', ''shall'', ''should'', ''will'', ''always'', ''never'',
                    ''required'', ''mandatory''] sentence
      \<or> test_words_i [''step'', ''process'', ''procedure'', ''method'', ''approach''] sentence
      \<or> test_words_i [''version'', ''release'', ''update'', ''deploy''] sentence
      \<or> test_number None sentence)"

definition extractKeyStatements :: "string option \<Rightarrow> string list" where
  "extractKeyStatements text =
     (case text of None \<Rightarrow> []
      | Some t \<Rightarrow>
          if t = [] then []
          else filter factual
                 (filter (\<lambda>s. length s > 20) (map trim (split_sentences [] t))))"

subsection \<open>Statement contradictions\<close>

text \<open>
  The pattern \<^verbatim>\<open>/(\d+\.?\d*)\s*(days?|hours?|minutes?|weeks?|%|percent)/gi\<close>.
  Every part is greedy, and no unit starts with a digit, a point or a space, so giving
  characters back never turns a failed attempt into a match: the greedy attempt decides.
\<close>

text \<open>\<open>w\<close> followed by an optional \<open>s\<close>, letter case ignored: the text matched.\<close>

definition match_plural :: "string \<Rightarrow> string \<Rightarrow> string option" where
  "match_plural w s =
     (if toLowerCase (take (length w) s) = w then
        (case drop (length w) s of
           [] \<Rightarrow> Some (take (length w) s)
         | c # cs \<Rightarrow> if lowerChar c = CHR ''s'' then Some (take (length w + 1) s)
                     else Some (take (length w) s))
      else None)"

definition match_literal :: "string \<Rightarrow> string \<Rightarrow> string option" where
  "match_literal w s = (if toLowerCase (take (length w) s) = w then Some (take (length w) s) else None)"

fun first_match :: "(string \<Rightarrow> string option) list \<Rightarrow> string \<Rightarrow> string option" where
  "first_match [] s = None"
| "first_match (m # ms) s = (case m s of Some u \<Rightarrow> Some u | None \<Rightarrow> first_match ms s)"

definition match_unit :: "string \<Rightarrow> string option" where
  "match_unit s =
     first_match [match_plural ''day'', match_plural ''hour'', match_plural ''minute'',
                  match_plural ''week'', match_literal ''%'', match_literal ''percent''] s"

text \<open>A match at the start of \<open>s\<close>: group 1, group 2 and the length of the whole match.\<close>

definition match_num :: "string \<Rightarrow> (string \<times> string \<times> nat) option" where
  "match_num s =
     (let d1 = takeWhile isDigit s; r1 = dropWhile isDigit s
      in if d1 = [] then None
         else
           (let point = (case r1 of [] \<Rightarrow> [] | c # cs \<Rightarrow> if c = CHR ''.'' then [c] else []);
                r2 = drop (length point) r1;
                d2 = takeWhile isDigit r2; r3 = dropWhile isDigit r2;
                sp = takeWhile isSpace r3; r4 = dropWhile isSpace r3
            in case match_unit r4 of
                 None \<Rightarrow> None
               | Some u \<Rightarrow> Some (d1 @ point @ d2, u,
                   length d1 + length point + length d2 + length sp + length u)))"

text \<open>\<open>[...s.matchAll(numPattern)]\<close>: the matches from left to right, none overlapping;
  \<open>skip\<close> counts the characters of the last match that are still to be passed.\<close>

fun matchAll :: "nat \<Rightarrow> string \<Rightarrow> (string \<times> string) list" where
  "matchAll skip [] = []"
| "matchAll skip (c # cs) =
     (if skip > 0 then matchAll (skip - 1) cs
      else (case match_num (c # cs) of
              None \<Rightarrow> matchAll 0 cs
            | Some (n, u, len) \<Rightarrow> (n, u) # matchAll (len - 1) cs))"

text \<open>\<open>s.replace(numPattern, '')\<close>: the string without its matches.\<close>

fun replace_nums :: "nat \<Rightarrow> string \<Rightarrow> string" where
  "replace_nums skip [] = []"
| "replace_nums skip (c # cs) =
     (if skip > 0 then replace_nums (skip - 1) cs
      else (case match_num (c # cs) of
              None \<Rightarrow> c # replace_nums 0 cs
            | Some (n, u, len) \<Rightarrow> replace_nums (len - 1) cs))"

record statement_result =
  isContradiction :: bool
  score :: real
  sr_reason :: "string option"

definition negationPatterns :: "(string \<times> string list) list" where
  "negationPatterns =
     [(''must'', [''must not'', ''should not'']),
      (''always'', [''never'']),
      (''required'', [''optional'', ''not required'']),
      (''enable'', [''disable''])]"

definition test_any :: "string list \<Rightarrow> string \<Rightarrow> bool" where
  "test_any ws s = (\<exists>w \<in> set ws. test_word w None s)"

fun negation_loop ::
  "tfidf \<Rightarrow> string \<Rightarrow> string \<Rightarrow> (string \<times> string list) list \<Rightarrow> statement_result option" where
  "negation_loop listTerms s1 s2 [] = None"
| "negation_loop listTerms s1 s2 ((pos, neg) # ps) =
     (if (test_word pos None s1 \<and> test_any neg s2) \<or> (test_any neg s1 \<and> test_word pos None s2)
      then
        (let vec1 = generateTfIdfEmbedding listTerms (Some s1);
             vec2 = generateTfIdfEmbedding listTerms (Some s2);
             similarity = cosineSimilarity (Some vec1) (Some vec2)
         in if similarity > 0.3
            then Some \<lparr>isContradiction = True, score = similarity,
                       sr_reason = Some ''Contradicting requirements detected''\<rparr>
            else negation_loop listTerms s1 s2 ps)
      else negation_loop listTerms s1 s2 ps)"

text \<open>\<open>unit.toLowerCase().replace(/s$/, '')\<close>\<close>

definition unit_key :: "string \<Rightarrow> string" where
  "unit_key u = (let l = toLowerCase u in if l \<noteq> [] \<and> last l = CHR ''s'' then butlast l else l)"

fun numeric_loop ::
  "tfidf \<Rightarrow> string \<Rightarrow> string \<Rightarrow> ((string \<times> string) \<times> (string \<times> string)) list
     \<Rightarrow> statement_result option" where
  "numeric_loop listTerms s1 s2 [] = None"
| "numeric_loop listTerms s1 s2 (((n1, u1), (n2, u2)) # ps) =
     (if unit_key u1 = unit_key u2 \<and> n1 \<noteq> n2 then
        (let vec1 = generateTfIdfEmbedding listTerms (Some (replace_nums 0 s1));
             vec2 = generateTfIdfEmbedding listTerms (Some (replace_nums 0 s2));
             similarity = cosineSimilarity (Some vec1) (Some vec2)
         in if similarity > 0.4
            then Some \<lparr>isContradiction = True, score = similarity,
                       sr_reason = Some (''Numerical conflict: '' @ n1 @ '' '' @ u1 @ '' vs ''
                                         @ n2 @ '' '' @ u2)\<rparr>
            else numeric_loop listTerms s1 s2 ps)
      else numeric_loop listTerms s1 s2 ps)"

definition detectStatementContradiction :: "tfidf \<Rightarrow> string \<Rightarrow> string \<Rightarrow> statement_result" where
  "detectStatementContradiction listTerms stmt1 stmt2 =
     (let s1 = toLowerCase stmt1; s2 = toLowerCase stmt2
      in case negation_loop listTerms s1 s2 negationPatterns of
           Some r \<Rightarrow> r
         | None \<Rightarrow>
             (case numeric_loop listTerms s1 s2 (List.product (matchAll 0 s1) (matchAll 0 s2)) of
                Some r \<Rightarrow> r
              | None \<Rightarrow> \<lparr>isContradiction = False, score = 0, sr_reason = None\<rparr>))"

section \<open>Contradiction detector (contradictionDetector.js)\<close>

record contradiction =
  this_statement :: string
  this_documentId :: string
  with_statement :: string
  with_documentId :: string
  with_documentTitle :: string
  severity :: string
  c_reason :: "string option"

record contradiction_result =
  c_hasContradictions :: bool
  c_contradictions :: "contradiction list"
  c_penalty :: real
  c_decayReasons :: "reason list option"

text \<open>\<open>typeRank[type] || 1\<close>\<close>

definition typeRank :: "string \<Rightarrow> nat" where
  "typeRank t =
     (case map_of [(''SOP'', 5), (''Policy'', 4), (''Spec'', 3), (''Guide'', 2), (''Notes'', 1)] t of
        Some r \<Rightarrow> r | None \<Rightarrow> 1)"

definition isMoreAuthoritative :: "document \<Rightarrow> document \<Rightarrow> bool" where
  "isMoreAuthoritative doc1 doc2 = (typeRank (doc_type doc1) > typeRank (doc_type doc2))"

text \<open>\<open>new Date(a) < new Date(b)\<close>: false when either date is invalid.\<close>

definition date_lt :: "jsdate \<Rightarrow> jsdate \<Rightarrow> bool" where
  "date_lt a b = (case (new_Date a, new_Date b) of (Some x, Some y) \<Rightarrow> x < y | _ \<Rightarrow> False)"

definition calculateContradictionPenalty :: "contradiction list \<Rightarrow> real" where
  "calculateContradictionPenalty contradictions =
     (if contradictions = [] then 0
      else
        (let highSeverity = length (filter (\<lambda>c. severity c = ''high'') contradictions);
             mediumSeverity = length (filter (\<lambda>c. severity c = ''medium'') contradictions);
             penalty = real highSeverity * 0.15 + real mediumSeverity * 0.08
         in min 0.4 (round3 penalty)))"

definition truncate_text :: "string \<Rightarrow> nat \<Rightarrow> string" where
  "truncate_text text maxLen =
     (if length text \<le> maxLen then text else take (maxLen - 3) text @ ''...'')"

text \<open>The contradictions one related document adds: every pair of statements, in order.\<close>

definition contradictions_with :: "tfidf \<Rightarrow> document \<Rightarrow> string list \<Rightarrow> document \<Rightarrow> contradiction list" where
  "contradictions_with listTerms document docStatements relatedDoc =
     (if date_lt (updatedAt relatedDoc) (updatedAt document)
         \<and> \<not> isMoreAuthoritative relatedDoc document then []
      else
        (let relatedStatements = extractKeyStatements (content relatedDoc)
         in concat (map (\<lambda>stmt1. concat (map (\<lambda>stmt2.
              (let result = detectStatementContradiction listTerms stmt1 stmt2
               in if isContradiction result
                  then [\<lparr>this_statement = stmt1, this_documentId = doc_id document,
                         with_statement = stmt2, with_documentId = doc_id relatedDoc,
                         with_documentTitle = doc_title relatedDoc,
                         severity = (if score result > 0.6 then ''high'' else ''medium''),
                         c_reason = sr_reason result\<rparr>]
                  else [])) relatedStatements)) docStatements)))"

definition contradiction_reason :: "contradiction \<Rightarrow> reason" where
  "contradiction_reason c =
     \<lparr>rtype = ''contradiction'',
      description = [CHR 0x22] @ truncate_text (this_statement c) 60 @ [CHR 0x22]
        @ '' conflicts with '' @ [CHR 0x22] @ truncate_text (with_statement c) 60 @ [CHR 0x22]
        @ '' in '' @ [CHR 0x22] @ with_documentTitle c @ [CHR 0x22],
      sources = [with_documentId c]\<rparr>"

definition detectContradictions :: "tfidf \<Rightarrow> document \<Rightarrow> document list \<Rightarrow> contradiction_result" where
  "detectContradictions listTerms document relatedDocs =
     (if relatedDocs = [] then
        \<lparr>c_hasContradictions = False, c_contradictions = [], c_penalty = 0, c_decayReasons = None\<rparr>
      else
        (let docStatements = extractKeyStatements (content document);
             contradictions =
               concat (map (contradictions_with listTerms document docStatements) relatedDocs);
             penalty = calculateContradictionPenalty contradictions;
             decayReasons = map contradiction_reason contradictions
         in \<lparr>c_hasContradictions = (length contradictions > 0),
             c_contradictions = contradictions,
             c_penalty = penalty,
             c_decayReasons = Some decayReasons\<rparr>))"

text \<open>The similarity a candidate gets: its stored vector, or one computed from its content.\<close>

definition docVector :: "tfidf \<Rightarrow> document \<Rightarrow> embedding" where
  "docVector listTerms d =
     (case embedding d of Some v \<Rightarrow> v | None \<Rightarrow> generateTfIdfEmbedding listTerms (content d))"

definition similarityTo :: "tfidf \<Rightarrow> document \<Rightarrow> document \<Rightarrow> real" where
  "similarityTo listTerms document d =
     cosineSimilarity (Some (docVector listTerms document)) (Some (docVector listTerms d))"

text \<open>
  A result is the pair of a candidate and its similarity (the object
  \<^verbatim>\<open>{...d, similarity}\<close>). \<open>Array.prototype.sort\<close> is stable, so the comparator
  \<^verbatim>\<open>(a, b) => b.similarity - a.similarity\<close> gives the stable sort by falling similarity.
\<close>

definition findRelatedDocuments :: "tfidf \<Rightarrow> document \<Rightarrow> document list \<Rightarrow> real \<Rightarrow> (document \<times> real) list" where
  "findRelatedDocuments listTerms document allDocs threshold =
     sort_key (\<lambda>(d, similarity). - similarity)
       (filter (\<lambda>(d, similarity). similarity \<ge> threshold)
          (map (\<lambda>d. (d, similarityTo listTerms document d))
             (filter (\<lambda>d. doc_id d \<noteq> doc_id document) allDocs)))"

section \<open>Version drift analyzer (versionDriftAnalyzer.js)\<close>

datatype error = TypeError string | Error string

fun message :: "error \<Rightarrow> string" where
  "message (TypeError m) = m"
| "message (Error m) = m"

definition SIGNIFICANT_DRIFT_THRESHOLD :: real where
  "SIGNIFICANT_DRIFT_THRESHOLD = 0.4"

definition MODERATE_DRIFT_THRESHOLD :: real where
  "MODERATE_DRIFT_THRESHOLD = 0.25"

record change =
  fromVersion :: int
  toVersion :: int
  ch_driftScore :: real
  ch_severity :: string
  ch_summary :: string

record drift_result =
  d_hasDrift :: bool
  d_hasSignificantDrift :: bool
  d_driftScore :: real
  d_penalty :: real
  d_changes :: "change list"
  d_decayReason :: "reason option"

text \<open>How a template literal prints a number with at most three decimals.\<close>

definition show_num3 :: "real \<Rightarrow> string" where
  "show_num3 x =
     (let k = Math_round (x * 1000); a = nat \<bar>k\<bar>; fp = a mod 1000;
          digits = [digitChar (fp div 100), digitChar (fp div 10 mod 10), digitChar (fp mod 10)];
          frac = (if fp = 0 then [] else CHR ''.'' # rev (dropWhile (\<lambda>c. c = CHR ''0'') (rev digits)))
      in (if k < 0 then ''-'' else []) @ show_nat (a div 1000) @ frac)"

text \<open>
  The loop over the versions, with the running maximum and the changes recorded so far.
  Reading \<open>version.embedding\<close> of an entry that is null or undefined throws a TypeError
  (the text of its message is the engine's).
\<close>

fun drift_loop ::
  "tfidf \<Rightarrow> document \<Rightarrow> version option list \<Rightarrow> real \<Rightarrow> change list \<Rightarrow> error + (real \<times> change list)" where
  "drift_loop listTerms document [] maxDrift changes = Inr (maxDrift, changes)"
| "drift_loop listTerms document (None # vs) maxDrift changes =
     Inl (TypeError ''Cannot read properties of null (reading embedding)'')"
| "drift_loop listTerms document (Some version # vs) maxDrift changes =
     (let drift = calculateSemanticDifference listTerms (content document) (v_content version)
      in drift_loop listTerms document vs
           (if drift > maxDrift then drift else maxDrift)
           (if drift \<ge> MODERATE_DRIFT_THRESHOLD
            then changes @ [\<lparr>fromVersion = versionNumber version,
                             toVersion = currentVersion document,
                             ch_driftScore = drift,
                             ch_severity = (if drift \<ge> SIGNIFICANT_DRIFT_THRESHOLD
                                            then ''significant'' else ''moderate''),
                             ch_summary = (case v_summary version of
                                 Some t \<Rightarrow> if t = [] then ''Version '' @ show_int (versionNumber version) else t
                               | None \<Rightarrow> ''Version '' @ show_int (versionNumber version))\<rparr>]
            else changes))"

definition analyzeVersionDrift :: "tfidf \<Rightarrow> document \<Rightarrow> version option list \<Rightarrow> error + drift_result" where
  "analyzeVersionDrift listTerms document versionList =
     (if versionList = [] then
        Inr \<lparr>d_hasDrift = False, d_hasSignificantDrift = False, d_driftScore = 0, d_penalty = 0,
             d_changes = [], d_decayReason = None\<rparr>
      else
        (case drift_loop listTerms document versionList 0 [] of
           Inl e \<Rightarrow> Inl e
         | Inr (maxDrift, changes) \<Rightarrow>
             (let significantChanges = filter (\<lambda>c. ch_severity c = ''significant'') changes;
                  hasSignificantDrift = (length significantChanges > 0);
                  penalty = (if maxDrift \<ge> SIGNIFICANT_DRIFT_THRESHOLD then 0.2
                             else if maxDrift \<ge> MODERATE_DRIFT_THRESHOLD then 0.1 else 0);
                  decayReason =
                    (case significantChanges of
                       [] \<Rightarrow> None
                     | mostRecent # rest \<Rightarrow>
                         Some \<lparr>rtype = ''version_drift'',
                           description = ''Significant semantic change detected from version ''
                             @ show_int (fromVersion mostRecent) @ '' to ''
                             @ show_int (toVersion mostRecent) @ '' (drift score: ''
                             @ show_num3 (ch_driftScore mostRecent) @ '')'',
                           sources = []\<rparr>)
              in Inr \<lparr>d_hasDrift = (maxDrift \<ge> MODERATE_DRIFT_THRESHOLD),
                      d_hasSignificantDrift = hasSignificantDrift,
                      d_driftScore = round3 maxDrift,
                      d_penalty = round3 penalty,
                      d_changes = changes,
                      d_decayReason = decayReason\<rparr>)))"

section \<open>Decay engine (decayEngine.js)\<close>

text \<open>
  The collaborators outside the repository: the TF-IDF statistics of \<open>natural\<close>, and the
  hosted embedding service, where \<open>None\<close> is any failure of the call (no API key, a
  network error).
\<close>

record ext =
  ext_listTerms :: tfidf
  ext_embedContent :: "string option \<Rightarrow> real list option"

text \<open>\<open>getEmbedding\<close> of utils/vectorUtils.js. The provider is
  \<^verbatim>\<open>process.env.EMBEDDING_PROVIDER || 'tfidf'\<close>; a failure of the hosted service is
  caught and falls back to TF-IDF; the other providers throw.\<close>

definition embeddingProvider :: "env \<Rightarrow> string" where
  "embeddingProvider e =
     (case EMBEDDING_PROVIDER e of None \<Rightarrow> ''tfidf''
      | Some p \<Rightarrow> if p = [] then ''tfidf'' else p)"

definition getEmbedding :: "env \<Rightarrow> ext \<Rightarrow> string option \<Rightarrow> error + embedding" where
  "getEmbedding e x text =
     (let provider = embeddingProvider e
      in if provider = ''tfidf'' then Inr (generateTfIdfEmbedding (ext_listTerms x) text)
         else if provider = ''gemini'' then
           (case ext_embedContent x text of
              Some values \<Rightarrow> Inr (Dense values)
            | None \<Rightarrow> Inr (generateTfIdfEmbedding (ext_listTerms x) text))
         else if provider = ''openai'' then
           Inl (Error ''OpenAI embeddings deprecated. Use EMBEDDING_PROVIDER=gemini'')
         else Inl (Error (''Unknown embedding provider: '' @ provider)))"

record internal =
  confidence_breakdown :: breakdown
  freshness_status :: string
  freshness_age_days :: "int option"
  contradictions :: "contradiction list"
  drift_score :: real
  has_significant_drift :: bool

text \<open>
  The result of an analysis. The two text fields \<open>what_changed_summary\<close> and
  \<open>update_recommendations\<close>, which updateGenerator.js derives from \<open>decay_reasons\<close>
  and the newer related documents, are not modelled.
\<close>

record verdict =
  decay_detected :: bool
  confidence_score :: real
  risk_level :: string
  decay_reasons :: "reason list"
  citations :: "string list"
  internal :: internal

text \<open>The objects a call of \<open>analyzeDocument\<close> receives. They are distinct objects: the
  document under review is not itself an element of \<open>allDocs\<close> or \<open>relatedDocs\<close>.\<close>

record inputs =
  in_document :: document
  in_versions :: "version option list"
  in_relatedDocs :: "document list"
  in_allDocs :: "document list"

text \<open>\<open>[...new Set(xs)]\<close>: the first occurrence of every element, in order.\<close>

definition dedupe :: "string list \<Rightarrow> string list" where
  "dedupe xs = rev (remdups (rev xs))"

text \<open>
  \<open>analyzeDocument\<close> returns what the call yields (the verdict, or the exception thrown)
  together with the state of the received objects after the call. The only assignment to
  a received object is \<^verbatim>\<open>document.embedding = await getEmbedding(document.content)\<close>,
  the first step (\<open>ensureEmbedding\<close>: the document after it, or the exception);
  \<open>relatedDocs = findRelatedDocuments(...)\<close> rebinds the local variable.
\<close>

definition ensureEmbedding :: "env \<Rightarrow> ext \<Rightarrow> document \<Rightarrow> error + document" where
  "ensureEmbedding e x document =
     (if embedding document = None
      then (case getEmbedding e x (content document) of
              Inl err \<Rightarrow> Inl err
            | Inr emb \<Rightarrow> Inr (document\<lparr>embedding := Some emb\<rparr>))
      else Inr document)"

definition analyzeDocument :: "env \<Rightarrow> ext \<Rightarrow> int \<Rightarrow> inputs \<Rightarrow> (error + verdict) \<times> inputs" where
  "analyzeDocument e x now inp =
     (case ensureEmbedding e x (in_document inp) of
        Inl err \<Rightarrow> (Inl err, inp)
      | Inr document \<Rightarrow>
          (let inp' = inp\<lparr>in_document := document\<rparr>;
               relatedDocs =
                 (if length (in_relatedDocs inp) = 0 \<and> length (in_allDocs inp) > 0
                  then map fst (findRelatedDocuments (ext_listTerms x) document (in_allDocs inp) 0.3)
                  else in_relatedDocs inp);
               freshnessResult = evaluateFreshness now document;
               contradictionResult = detectContradictions (ext_listTerms x) document relatedDocs
           in case analyzeVersionDrift (ext_listTerms x) document (in_versions inp) of
                Inl err \<Rightarrow> (Inl err, inp')
              | Inr driftResult \<Rightarrow>
                  (let scored = calculateConfidence e
                         \<lparr>agePenalty = f_penalty freshnessResult,
                          contradictionPenalty = c_penalty contradictionResult,
                          driftPenalty = d_penalty driftResult,
                          supportingDocsCount = real (length relatedDocs)\<rparr>;
                       riskLevel = determineRiskLevel (confidence scored)
                         \<lparr>hasContradictions = c_hasContradictions contradictionResult,
                          hasSignificantDrift = d_hasSignificantDrift driftResult,
                          freshnessStatus = f_status freshnessResult\<rparr>;
                       decayReasons =
                         (case f_decayReason freshnessResult of None \<Rightarrow> [] | Some r \<Rightarrow> [r])
                         @ (case c_decayReasons contradictionResult of None \<Rightarrow> [] | Some rs \<Rightarrow> rs)
                         @ (case d_decayReason driftResult of None \<Rightarrow> [] | Some r \<Rightarrow> [r])
                         @ (if length relatedDocs = 0 \<and> support_penalty (breakdown scored) > 0
                            then [\<lparr>rtype = ''low_support'',
                                   description = ''No supporting documents found for cross-validation'',
                                   sources = []\<rparr>]
                            else []);
                       decayDetected = shouldFlagDecay (confidence scored) riskLevel;
                       citationList =
                         filter (\<lambda>c. c \<noteq> [])
                           (dedupe (concat (map sources decayReasons) @ map doc_id relatedDocs))
                   in (Inr \<lparr>decay_detected = decayDetected,
                            confidence_score = confidence scored,
                            risk_level = riskLevel,
                            decay_reasons = decayReasons,
                            citations = citationList,
                            internal = \<lparr>confidence_breakdown = breakdown scored,
                              freshness_status = f_status freshnessResult,
                              freshness_age_days = f_ageDays freshnessResult,
                              contradictions = c_contradictions contradictionResult,
                              drift_score = d_driftScore driftResult,
                              has_significant_drift = d_hasSignificantDrift driftResult\<rparr>\<rparr>,
                       inp'))))"

text \<open>
  A record of a batch: the fields every record has, and in \<open>b_analysis\<close> the rest of an
  analysis (\<open>None\<close> in the record of a failure, which has no further field).
\<close>

record batch_record =
  documentId :: string
  documentTitle :: string
  b_error :: "string option"
  b_decay_detected :: bool
  b_confidence_score :: real
  b_risk_level :: string
  b_decay_reasons :: "reason list"
  b_analysis :: "verdict option"

text \<open>\<open>document.versions || []\<close>\<close>

definition versions_or_empty :: "document \<Rightarrow> version option list" where
  "versions_or_empty document = (case versions document of None \<Rightarrow> [] | Some vs \<Rightarrow> vs)"

text \<open>The call of \<open>analyzeDocument\<close> in the loop: no related documents are passed.\<close>

definition batch_inputs :: "document list \<Rightarrow> document \<Rightarrow> inputs" where
  "batch_inputs allDocs document =
     \<lparr>in_document = document, in_versions = versions_or_empty document,
      in_relatedDocs = [], in_allDocs = allDocs\<rparr>"

text \<open>One turn of the loop: the analysis, and the \<open>catch\<close>.\<close>

definition batch_item :: "env \<Rightarrow> ext \<Rightarrow> int \<Rightarrow> document list \<Rightarrow> document \<Rightarrow> batch_record" where
  "batch_item e x now allDocs document =
     (case fst (analyzeDocument e x now (batch_inputs allDocs document)) of
           Inr result \<Rightarrow>
             \<lparr>documentId = doc_id document, documentTitle = doc_title document,
              b_error = None,
              b_decay_detected = decay_detected result,
              b_confidence_score = confidence_score result,
              b_risk_level = risk_level result,
              b_decay_reasons = decay_reasons result,
              b_analysis = Some result\<rparr>
         | Inl err \<Rightarrow>
             \<lparr>documentId = doc_id document, documentTitle = doc_title document,
              b_error = Some (message err),
              b_decay_detected = False,
              b_confidence_score = 0,
              b_risk_level = ''high'',
              b_decay_reasons = [\<lparr>rtype = ''error'',
                                  description = ''Analysis failed: '' @ message err,
                                  sources = []\<rparr>],
              b_analysis = None\<rparr>)"

definition batchAnalyze :: "env \<Rightarrow> ext \<Rightarrow> int \<Rightarrow> document list \<Rightarrow> document list \<Rightarrow> batch_record list" where
  "batchAnalyze e x now documents allDocs = map (batch_item e x now allDocs) documents"

section \<open>Example inputs\<close>

text \<open>An age penalty of 0.133 (an SOP 40 days old) with three supporting documents.\<close>

definition params_sop40 :: scoring_params where
  "params_sop40 = \<lparr>agePenalty = 0.133, contradictionPenalty = 0, driftPenalty = 0,
                     supportingDocsCount = 3\<rparr>"

text \<open>
  A stand-in for the TF-IDF statistics, used in examples only: every distinct word of the
  text, with the weight 0.307.
\<close>

fun word_runs :: "string \<Rightarrow> string \<Rightarrow> string list" where
  "word_runs cur [] = (if cur = [] then [] else [rev cur])"
| "word_runs cur (c # cs) =
     (if isWordChar c then word_runs (c # cur) cs
      else if cur = [] then word_runs [] cs
      else rev cur # word_runs [] cs)"

definition listTerms_example :: tfidf where
  "listTerms_example s = map (\<lambda>w. (w, 0.307)) (remdups (word_runs [] s))"

definition ext_example :: ext where
  "ext_example = \<lparr>ext_listTerms = listTerms_example, ext_embedContent = (\<lambda>t. None)\<rparr>"

text \<open>The instant of the examples, and one day in milliseconds.\<close>

definition now_example :: int where
  "now_example = 1700000000000"

definition day_ms :: int where
  "day_ms = 86400000"


text \<open>The two documents of a batch: a well-formed one, and one whose content is null.\<close>

definition doc_good :: document where
  "doc_good = \<lparr>doc_id = ''batch-3'', doc_title = ''Good Doc'', doc_type = ''Notes'',
      content = Some ''Content'', currentVersion = 1, updatedAt = Time now_example,
      lastVerifiedAt = Undefined, embedding = None, versions = None\<rparr>"

definition doc_null_content :: document where
  "doc_null_content = \<lparr>doc_id = ''batch-4'', doc_title = ''Bad Doc'', doc_type = ''Notes'',
      content = None, currentVersion = 1, updatedAt = Time now_example,
      lastVerifiedAt = Undefined, embedding = None, versions = None\<rparr>"

text \<open>A document whose list of versions holds a null entry.\<close>

definition doc_null_version :: document where
  "doc_null_version = \<lparr>doc_id = ''batch-5'', doc_title = ''Broken History'', doc_type = ''Notes'',
      content = Some ''Content'', currentVersion = 2, updatedAt = Time now_example,
      lastVerifiedAt = Undefined, embedding = None, versions = Some [None]\<rparr>"

text \<open>The analysis of a fresh document without related documents and versions: only the
  missing support is reported.\<close>

definition verdict_low_support :: verdict where
  "verdict_low_support =
     \<lparr>decay_detected = True, confidence_score = 9 / 10, risk_level = ''low'',
      decay_reasons = [\<lparr>rtype = ''low_support'',
        description = ''No supporting documents found for cross-validation'', sources = []\<rparr>],
      citations = [],
      internal = \<lparr>confidence_breakdown =
          \<lparr>starting_confidence = 1, age_penalty = 0, contradiction_penalty = 0,
           drift_penalty = 0, support_penalty = 1 / 10, total_penalty = 1 / 10,
           final_confidence = 9 / 10\<rparr>,
        freshness_status = ''fresh'', freshness_age_days = Some 0, contradictions = [],
        drift_score = 0, has_significant_drift = False\<rparr>\<rparr>"

text \<open>A document with a stored sparse vector, and a subject with its candidate pool.\<close>

definition doc_vec :: "string \<Rightarrow> embedding \<Rightarrow> document" where
  "doc_vec i v = \<lparr>doc_id = i, doc_title = i, doc_type = ''Notes'', content = None,
      currentVersion = 1, updatedAt = Time now_example, lastVerifiedAt = Undefined,
      embedding = Some v, versions = None\<rparr>"

definition subject_example :: document where
  "subject_example = doc_vec ''doc-1'' (Sparse [(''deploy'', 1)])"

definition pool_example :: "document list" where
  "pool_example = [doc_vec ''doc-1'' (Sparse [(''deploy'', 1)]),
                   doc_vec ''doc-2'' (Sparse [(''deploy'', 1)]),
                   doc_vec ''doc-3'' (Sparse [(''recipes'', 1)])]"

text \<open>A document at version 4 and its three earlier versions, newest first: the text of
  version 3 is the current one, versions 2 and 1 have other texts.\<close>

definition doc_versioned :: document where
  "doc_versioned = \<lparr>doc_id = ''doc-6'', doc_title = ''Versioned Doc'', doc_type = ''Spec'',
      content = Some ''alpha'', currentVersion = 4, updatedAt = Time now_example,
      lastVerifiedAt = Undefined, embedding = None, versions = None\<rparr>"

definition version_example :: "int \<Rightarrow> string \<Rightarrow> version" where
  "version_example n text =
     \<lparr>versionNumber = n, v_content = Some text, v_embedding = None, v_summary = None\<rparr>"

definition versions_example :: "version list" where
  "versions_example =
     [version_example 3 ''alpha'', version_example 2 ''beta'', version_example 1 ''gamma'']"

text \<open>The subject updated on 2024-01-01 and the related document updated on 2024-06-01
  (midnight UTC, in milliseconds).\<close>

definition doc_deploy_5 :: document where
  "doc_deploy_5 = \<lparr>doc_id = ''doc-1'', doc_title = ''Deployment Guide'', doc_type = ''Guide'',
      content = Some ''Deployments must complete within 5 minutes.'', currentVersion = 1,
      updatedAt = Time 1704067200000, lastVerifiedAt = Undefined, embedding = None,
      versions = None\<rparr>"

definition doc_deploy_15 :: document where
  "doc_deploy_15 = \<lparr>doc_id = ''doc-2'', doc_title = ''New Deployment Guide'', doc_type = ''Guide'',
      content = Some ''Deployments must complete within 15 minutes.'', currentVersion = 1,
      updatedAt = Time 1717200000000, lastVerifiedAt = Undefined, embedding = None,
      versions = None\<rparr>"

section \<open>Properties of the rounding\<close>

lemma round2_decimals: "decimals 2 (round2 x)"
  unfolding decimals_def round2_def by (rule exI [of _ "Math_round (x * 100)"]) simp

lemma round3_decimals: "decimals 3 (round3 x)"
  unfolding decimals_def round3_def by (rule exI [of _ "Math_round (x * 1000)"]) simp

lemma Math_round_int: "Math_round (real_of_int k) = k"
  unfolding Math_round_def by linarith

lemma round2_bounds:
  assumes "0 \<le> x" and "x \<le> 1"
  shows "0 \<le> round2 x \<and> round2 x \<le> 1"
proof -
  have lo: "0 \<le> Math_round (x * 100)"
    unfolding Math_round_def using assms by (simp add: le_floor_iff)
  have "x * 100 + 1 / 2 < 101" using assms by simp
  then have "\<lfloor>x * 100 + 1 / 2\<rfloor> < 101" by (simp add: floor_less_iff)
  then have hi: "Math_round (x * 100) \<le> 100" unfolding Math_round_def by simp
  show ?thesis unfolding round2_def using lo hi by simp
qed

lemma round3_of_round2: "round3 (1 - round2 x) = 1 - round2 x"
proof -
  have "(1 - round2 x) * 1000 = real_of_int (1000 - 10 * Math_round (x * 100))"
    unfolding round2_def by simp
  then have "Math_round ((1 - round2 x) * 1000) = 1000 - 10 * Math_round (x * 100)"
    using Math_round_int by metis
  then show ?thesis unfolding round3_def round2_def by simp
qed

lemma total_decimals: "decimals 3 (1 - round2 x)"
  using round3_decimals [of "1 - round2 x"] by (simp add: round3_of_round2)

lemma round3_milli: "round3 (real_of_int k / 1000) = real_of_int k / 1000"
  unfolding round3_def using Math_round_int [of k] by simp

lemma round3_0 [simp]: "round3 0 = 0"
  using round3_milli [of 0] by simp

lemma round3_03 [simp]: "round3 (3 / 10) = 3 / 10"
  using round3_milli [of 300] by simp

section \<open>Properties of the confidence scorer\<close>

lemma clamped_bounds: "0 \<le> clampedConfidence e p \<and> clampedConfidence e p \<le> 1"
  unfolding clampedConfidence_def by simp

lemma confidence_bounds:
  "0 \<le> confidence (calculateConfidence e p) \<and> confidence (calculateConfidence e p) \<le> 1"
  using round2_bounds clamped_bounds by (simp add: calculateConfidence_def Let_def)

lemma clamped_sop40: "clampedConfidence default_env params_sop40 = 867 / 1000"
  by (simp add: clampedConfidence_def params_sop40_def appliedAgePenalty_def
      appliedContradictionPenalty_def appliedDriftPenalty_def appliedSupportPenalty_def
      default_env_def MAX_AGE_PENALTY_def MAX_CONTRADICTION_PENALTY_def MAX_DRIFT_PENALTY_def
      MAX_SUPPORT_PENALTY_def parseFloat_or_def)

text \<open>
  C3, as stated, fails for \<open>total_penalty\<close>: it is computed from the score after the
  2-decimal rounding. With an age penalty of 0.133 and three supporting documents the
  score before rounding is 0.867, whose distance to 1 is 0.133 at 3 decimals; the score is
  rounded to 0.87 and the breakdown records a total penalty of 0.13.
\<close>

theorem total_penalty_depends_on_rounding:
  "total_penalty (breakdown (calculateConfidence default_env params_sop40)) = 13 / 100
   \<and> round3 (1 - clampedConfidence default_env params_sop40) = 133 / 1000"
  by (simp add: clamped_sop40 calculateConfidence_def Let_def round2_def round3_def Math_round_def)

text \<open>
  C3 (amended): for every input and every configuration of the caps, also when a supplied
  penalty exceeds its cap or is negative, the confidence is the clamped score rounded to
  2 decimals and lies in [0,1]; the age, contradiction, drift and support penalties of
  the breakdown are the applied penalties rounded to 3 decimals, computed from the input
  and the caps alone; \<open>total_penalty\<close> is 1 minus the final, rounded confidence (so it
  has at most 3 decimals, but follows the rounding of the score).
\<close>

theorem calculateConfidence_breakdown:
  "0 \<le> confidence (calculateConfidence e p) \<and> confidence (calculateConfidence e p) \<le> 1
   \<and> confidence (calculateConfidence e p) = round2 (clampedConfidence e p)
   \<and> decimals 2 (confidence (calculateConfidence e p))
   \<and> age_penalty (breakdown (calculateConfidence e p))
       = round3 (min (agePenalty p) (MAX_AGE_PENALTY e))
   \<and> contradiction_penalty (breakdown (calculateConfidence e p))
       = round3 (min (contradictionPenalty p) (MAX_CONTRADICTION_PENALTY e))
   \<and> drift_penalty (breakdown (calculateConfidence e p))
       = round3 (min (driftPenalty p) (MAX_DRIFT_PENALTY e))
   \<and> support_penalty (breakdown (calculateConfidence e p)) = round3 (appliedSupportPenalty e p)
   \<and> total_penalty (breakdown (calculateConfidence e p)) = 1 - confidence (calculateConfidence e p)
   \<and> decimals 3 (age_penalty (breakdown (calculateConfidence e p)))
   \<and> decimals 3 (contradiction_penalty (breakdown (calculateConfidence e p)))
   \<and> decimals 3 (drift_penalty (breakdown (calculateConfidence e p)))
   \<and> decimals 3 (support_penalty (breakdown (calculateConfidence e p)))
   \<and> decimals 3 (total_penalty (breakdown (calculateConfidence e p)))"
  using confidence_bounds [of e p] round2_decimals round3_decimals round3_of_round2 total_decimals
  by (simp add: calculateConfidence_def Let_def appliedAgePenalty_def
      appliedContradictionPenalty_def appliedDriftPenalty_def)

section \<open>Properties of the freshness evaluator\<close>

lemma getThresholds_cases:
  "getThresholds t \<in> {\<lparr>warning = 30, critical = 90\<rparr>, \<lparr>warning = 60, critical = 180\<rparr>,
      \<lparr>warning = 90, critical = 365\<rparr>, \<lparr>warning = 45, critical = 120\<rparr>,
      \<lparr>warning = 180, critical = 365\<rparr>}"
  by (simp add: getThresholds_def DECAY_THRESHOLDS_def)










text \<open>
  An \<open>updatedAt\<close> that is null is not a missing date for \<open>new Date\<close>: it is read as
  the epoch, and once the epoch is a year away the document is critical.
\<close>

lemma null_updatedAt_is_epoch:
  assumes "updatedAt d = Null" and "\<not> truthy (lastVerifiedAt d)" and "365 * day_ms \<le> now"
  shows "f_status (evaluateFreshness now d) = ''critical''"
proof -
  have "365 \<le> now div day_ms"
    using assms(3) by (simp add: day_ms_def)
  moreover have "critical (getThresholds (doc_type d)) \<le> 365"
    using getThresholds_cases [of "doc_type d"] by auto
  ultimately show ?thesis
    using assms(1,2)
    by (simp add: evaluateFreshness_def calculateAgeDays_def ge_num_def Let_def new_Date_def day_ms_def)
qed

section \<open>Properties of the decay engine\<close>

lemma drift_loop_fails: "isl (drift_loop lt d vs m cs) \<longleftrightarrow> None \<in> set vs"
proof (induction vs arbitrary: m cs)
  case Nil
  then show ?case by simp
next
  case (Cons v vs)
  then show ?case by (cases v) (simp_all add: Let_def)
qed

lemma analyzeVersionDrift_fails: "isl (analyzeVersionDrift lt d vs) \<longleftrightarrow> None \<in> set vs"
proof (cases "drift_loop lt d vs 0 []")
  case (Inl e)
  then have "None \<in> set vs" using drift_loop_fails [of lt d vs 0 "[]"] by simp
  with Inl show ?thesis by (auto simp: analyzeVersionDrift_def)
next
  case (Inr r)
  then have "None \<notin> set vs" using drift_loop_fails [of lt d vs 0 "[]"] by simp
  with Inr show ?thesis by (cases r) (auto simp: analyzeVersionDrift_def Let_def)
qed

lemma getEmbedding_fails:
  "isl (getEmbedding e x t) \<longleftrightarrow> embeddingProvider e \<noteq> ''tfidf'' \<and> embeddingProvider e \<noteq> ''gemini''"
  by (simp add: getEmbedding_def Let_def split: option.splits)

lemma ensureEmbedding_fails:
  "isl (ensureEmbedding e x d) \<longleftrightarrow>
     embedding d = None \<and> embeddingProvider e \<noteq> ''tfidf'' \<and> embeddingProvider e \<noteq> ''gemini''"
  using getEmbedding_fails [of e x "content d"]
  by (auto simp: ensureEmbedding_def split: sum.splits)

lemma analyzeDocument_fails:
  "isl (fst (analyzeDocument e x now inp)) \<longleftrightarrow>
     (embedding (in_document inp) = None
        \<and> embeddingProvider e \<noteq> ''tfidf'' \<and> embeddingProvider e \<noteq> ''gemini'')
     \<or> None \<in> set (in_versions inp)"
proof (cases "ensureEmbedding e x (in_document inp)")
  case (Inl err)
  then show ?thesis
    using ensureEmbedding_fails [of e x "in_document inp"]
    by (simp add: analyzeDocument_def)
next
  case (Inr d)
  have "isl (fst (analyzeDocument e x now inp))
      \<longleftrightarrow> isl (analyzeVersionDrift (ext_listTerms x) d (in_versions inp))"
    unfolding analyzeDocument_def Inr by (simp add: Let_def split: sum.splits)
  then show ?thesis
    using Inr analyzeVersionDrift_fails ensureEmbedding_fails [of e x "in_document inp"]
    by auto
qed

lemma analyzeDocument_state:
  "snd (analyzeDocument e x now inp) =
     (case ensureEmbedding e x (in_document inp) of
        Inl err \<Rightarrow> inp
      | Inr d \<Rightarrow> inp\<lparr>in_document := d\<rparr>)"
  unfolding analyzeDocument_def by (simp add: Let_def split: sum.splits)

lemma analyzeDocument_verdict:
  assumes "fst (analyzeDocument e x now inp) = Inr v"
  shows "decay_detected v = shouldFlagDecay (confidence_score v) (risk_level v)
     \<and> 0 \<le> confidence_score v \<and> confidence_score v \<le> 1"
  using assms confidence_bounds
  unfolding analyzeDocument_def Let_def
  by (auto split: sum.splits)

lemma getEmbedding_null: "getEmbedding default_env ext_example None = Inr (Sparse [])"
  by code_simp

lemma getEmbedding_good:
  "getEmbedding default_env ext_example (Some ''Content'') = Inr (Sparse [(''content'', 307 / 1000)])"
  by code_simp

lemma fresh_today:
  assumes "doc_type d = ''Notes''" and "updatedAt d = Time now_example"
    and "lastVerifiedAt d = Undefined"
  shows "evaluateFreshness now_example d
   = \<lparr>f_status = ''fresh'', f_ageDays = Some 0,
      f_thresholds = \<lparr>warning = 180, critical = 365\<rparr>, f_penalty = 0, f_decayReason = None\<rparr>"
  using assms
  by (simp add: evaluateFreshness_def truthy_def calculateAgeDays_def new_Date_def
      getThresholds_def DECAY_THRESHOLDS_def ge_num_def)

lemma score_no_support:
  "calculateConfidence default_env
     \<lparr>agePenalty = 0, contradictionPenalty = 0, driftPenalty = 0, supportingDocsCount = 0\<rparr>
   = \<lparr>confidence = 9 / 10,
      breakdown = \<lparr>starting_confidence = 1, age_penalty = 0, contradiction_penalty = 0,
        drift_penalty = 0, support_penalty = 1 / 10, total_penalty = 1 / 10,
        final_confidence = 9 / 10\<rparr>\<rparr>"
  by code_simp

text \<open>A fresh document alone: no related documents, no candidates, no versions.\<close>

lemma analyze_alone:
  assumes "ensureEmbedding default_env ext_example d = Inr d'"
    and "doc_type d' = ''Notes''" and "updatedAt d' = Time now_example"
    and "lastVerifiedAt d' = Undefined"
  shows "analyzeDocument default_env ext_example now_example
           \<lparr>in_document = d, in_versions = [], in_relatedDocs = [], in_allDocs = []\<rparr>
         = (Inr verdict_low_support,
            \<lparr>in_document = d', in_versions = [], in_relatedDocs = [], in_allDocs = []\<rparr>)"
  unfolding analyzeDocument_def
  by (simp add: assms(1) fresh_today [OF assms(2-4)] detectContradictions_def
      analyzeVersionDrift_def Let_def score_no_support determineRiskLevel_def
      shouldFlagDecay_def dedupe_def verdict_low_support_def)

lemma ensure_good:
  "ensureEmbedding default_env ext_example doc_good
     = Inr (doc_good\<lparr>embedding := Some (Sparse [(''content'', 307 / 1000)])\<rparr>)"
  by (simp add: ensureEmbedding_def doc_good_def getEmbedding_good)

lemma ensure_null_content:
  "ensureEmbedding default_env ext_example doc_null_content
     = Inr (doc_null_content\<lparr>embedding := Some (Sparse [])\<rparr>)"
  by (simp add: ensureEmbedding_def doc_null_content_def getEmbedding_null)

lemma analyze_good:
  "analyzeDocument default_env ext_example now_example (batch_inputs [] doc_good)
     = (Inr verdict_low_support,
        (batch_inputs [] doc_good)
          \<lparr>in_document := doc_good\<lparr>embedding := Some (Sparse [(''content'', 307 / 1000)])\<rparr>\<rparr>)"
  using analyze_alone [OF ensure_good]
  by (simp add: batch_inputs_def versions_or_empty_def doc_good_def)

lemma analyze_null_content:
  "analyzeDocument default_env ext_example now_example (batch_inputs [] doc_null_content)
     = (Inr verdict_low_support,
        (batch_inputs [] doc_null_content)
          \<lparr>in_document := doc_null_content\<lparr>embedding := Some (Sparse [])\<rparr>\<rparr>)"
  using analyze_alone [OF ensure_null_content]
  by (simp add: batch_inputs_def versions_or_empty_def doc_null_content_def)

lemma analyze_null_version:
  "fst (analyzeDocument default_env ext_example now_example (batch_inputs [] doc_null_version))
     = Inl (TypeError ''Cannot read properties of null (reading embedding)'')"
  by (simp add: analyzeDocument_def batch_inputs_def versions_or_empty_def doc_null_version_def
      ensureEmbedding_def getEmbedding_good analyzeVersionDrift_def Let_def)

text \<open>
  C1: \<open>shouldFlagDecay\<close> holds exactly when the confidence is below 1 or the risk level
  is not \<open>low\<close>; \<open>shouldFlagDecay(1.0, 'low')\<close> is false, and it is true for every
  other pair of a confidence score (a number up to 1) and a risk level. Every verdict of
  \<open>analyzeDocument\<close> has a score up to 1 and satisfies
  \<open>decay_detected \<longleftrightarrow> confidence_score < 1 \<or> risk_level \<noteq> low\<close>.
\<close>

theorem decay_flag_iff:
  "(shouldFlagDecay c r \<longleftrightarrow> c < 1 \<or> r \<noteq> ''low'')
   \<and> shouldFlagDecay 1 ''low'' = False
   \<and> (c \<le> 1 \<and> (c, r) \<noteq> (1, ''low'') \<longrightarrow> shouldFlagDecay c r)
   \<and> (fst (analyzeDocument e x now inp) = Inr v \<longrightarrow>
        (decay_detected v \<longleftrightarrow> confidence_score v < 1 \<or> risk_level v \<noteq> ''low'')
        \<and> confidence_score v \<le> 1)"
  using analyzeDocument_verdict [of e x now inp v]
  by (auto simp: shouldFlagDecay_def)

text \<open>
  The theorem at the score 0.5 with risk \<open>low\<close>, and at the analysis of a fresh document
  that has no supporting documents.
\<close>

theorem decay_flag_iff_witness:
  "(1 / 2 :: real) \<le> 1 \<and> shouldFlagDecay (1 / 2) ''low''
   \<and> fst (analyzeDocument default_env ext_example now_example (batch_inputs [] doc_good))
       = Inr verdict_low_support
   \<and> decay_detected verdict_low_support
   \<and> confidence_score verdict_low_support < 1"
proof -
  have a: "fst (analyzeDocument default_env ext_example now_example (batch_inputs [] doc_good))
       = Inr verdict_low_support"
    by (simp add: analyze_good)
  from decay_flag_iff [of "1 / 2" "''low''" default_env ext_example now_example
      "batch_inputs [] doc_good" verdict_low_support] a
  show ?thesis by (simp add: verdict_low_support_def)
qed

text \<open>
  C2 (amended): \<open>batchAnalyze\<close> returns one record per input document, in order, with
  the id and title of the document, and no exception leaves it. A document whose analysis
  throws yields the error record: \<open>risk_level = high\<close>, \<open>decay_detected = false\<close>,
  \<open>confidence_score = 0\<close> and the single reason of type \<open>error\<close> that carries the
  message; every other document yields its analysis. The analysis throws exactly when the
  document has no embedding and the configured embedding provider is neither \<open>tfidf\<close>
  nor \<open>gemini\<close>, or when its list of versions holds a null entry: the content of the
  document, null or not, plays no part.
\<close>

theorem batchAnalyze_records:
  assumes "i < length documents"
  shows "length (batchAnalyze e x now documents allDocs) = length documents
   \<and> documentId (batchAnalyze e x now documents allDocs ! i) = doc_id (documents ! i)
   \<and> documentTitle (batchAnalyze e x now documents allDocs ! i) = doc_title (documents ! i)
   \<and> (case fst (analyzeDocument e x now (batch_inputs allDocs (documents ! i))) of
         Inl err \<Rightarrow>
           b_error (batchAnalyze e x now documents allDocs ! i) = Some (message err)
           \<and> b_risk_level (batchAnalyze e x now documents allDocs ! i) = ''high''
           \<and> b_decay_detected (batchAnalyze e x now documents allDocs ! i) = False
           \<and> b_confidence_score (batchAnalyze e x now documents allDocs ! i) = 0
           \<and> b_decay_reasons (batchAnalyze e x now documents allDocs ! i)
               = [\<lparr>rtype = ''error'', description = ''Analysis failed: '' @ message err,
                   sources = []\<rparr>]
           \<and> b_analysis (batchAnalyze e x now documents allDocs ! i) = None
       | Inr v \<Rightarrow>
           b_error (batchAnalyze e x now documents allDocs ! i) = None
           \<and> b_risk_level (batchAnalyze e x now documents allDocs ! i) = risk_level v
           \<and> b_decay_detected (batchAnalyze e x now documents allDocs ! i) = decay_detected v
           \<and> b_confidence_score (batchAnalyze e x now documents allDocs ! i) = confidence_score v
           \<and> b_decay_reasons (batchAnalyze e x now documents allDocs ! i) = decay_reasons v
           \<and> b_analysis (batchAnalyze e x now documents allDocs ! i) = Some v)
   \<and> (isl (fst (analyzeDocument e x now (batch_inputs allDocs (documents ! i)))) \<longleftrightarrow>
        (embedding (documents ! i) = None
           \<and> embeddingProvider e \<noteq> ''tfidf'' \<and> embeddingProvider e \<noteq> ''gemini'')
        \<or> None \<in> set (versions_or_empty (documents ! i)))"
  using assms analyzeDocument_fails [of e x now "batch_inputs allDocs (documents ! i)"]
  by (simp add: batchAnalyze_def batch_item_def batch_inputs_def split: sum.splits)

text \<open>
  The theorem at a batch whose second document has a null entry among its versions.
\<close>

theorem batchAnalyze_records_witness:
  "(1::nat) < length [doc_good, doc_null_version]
   \<and> length (batchAnalyze default_env ext_example now_example [doc_good, doc_null_version] []) = 2
   \<and> fst (analyzeDocument default_env ext_example now_example (batch_inputs [] doc_null_version))
       = Inl (TypeError ''Cannot read properties of null (reading embedding)'')
   \<and> None \<in> set (versions_or_empty doc_null_version)
   \<and> documentId (batchAnalyze default_env ext_example now_example [doc_good, doc_null_version] [] ! 1)
       = ''batch-5''
   \<and> b_error (batchAnalyze default_env ext_example now_example [doc_good, doc_null_version] [] ! 1)
       = Some ''Cannot read properties of null (reading embedding)''
   \<and> b_risk_level (batchAnalyze default_env ext_example now_example [doc_good, doc_null_version] [] ! 1)
       = ''high''
   \<and> b_decay_detected (batchAnalyze default_env ext_example now_example [doc_good, doc_null_version] [] ! 1)
       = False
   \<and> b_confidence_score (batchAnalyze default_env ext_example now_example [doc_good, doc_null_version] [] ! 1)
       = 0
   \<and> b_decay_reasons (batchAnalyze default_env ext_example now_example [doc_good, doc_null_version] [] ! 1)
       = [\<lparr>rtype = ''error'',
           description = ''Analysis failed: Cannot read properties of null (reading embedding)'',
           sources = []\<rparr>]"
proof -
  have i: "(1::nat) < length [doc_good, doc_null_version]" by simp
  have v: "None \<in> set (versions_or_empty doc_null_version)"
    by (simp add: versions_or_empty_def doc_null_version_def)
  have d: "doc_id doc_null_version = ''batch-5''" by (simp add: doc_null_version_def)
  from batchAnalyze_records [OF i, of default_env ext_example now_example "[]"]
  show ?thesis by (simp add: analyze_null_version v d)
qed

text \<open>
  C2, as stated, fails for a document with \<open>content: null\<close>: the text functions return
  an empty vector and no statement for a null text, nothing throws, and the record is an
  analysis like that of the well-formed document, not an error record.
\<close>

theorem null_content_is_analysed:
  "map b_error (batchAnalyze default_env ext_example now_example [doc_good, doc_null_content] [])
     = [None, None]
   \<and> map documentId (batchAnalyze default_env ext_example now_example [doc_good, doc_null_content] [])
     = [''batch-3'', ''batch-4'']
   \<and> map b_analysis (batchAnalyze default_env ext_example now_example [doc_good, doc_null_content] [])
     = [Some verdict_low_support, Some verdict_low_support]
   \<and> map b_risk_level (batchAnalyze default_env ext_example now_example [doc_good, doc_null_content] [])
     = [''low'', ''low'']
   \<and> map b_decay_detected (batchAnalyze default_env ext_example now_example [doc_good, doc_null_content] [])
     = [True, True]
   \<and> map b_confidence_score (batchAnalyze default_env ext_example now_example [doc_good, doc_null_content] [])
     = [9 / 10, 9 / 10]
   \<and> map (map rtype \<circ> b_decay_reasons)
        (batchAnalyze default_env ext_example now_example [doc_good, doc_null_content] [])
     = [[''low_support''], [''low_support'']]"
proof -
  have g: "batch_item default_env ext_example now_example [] doc_good
      = \<lparr>documentId = ''batch-3'', documentTitle = ''Good Doc'', b_error = None,
         b_decay_detected = True, b_confidence_score = 9 / 10, b_risk_level = ''low'',
         b_decay_reasons = decay_reasons verdict_low_support,
         b_analysis = Some verdict_low_support\<rparr>"
    unfolding batch_item_def analyze_good
    by (simp add: verdict_low_support_def doc_good_def)
  have n: "batch_item default_env ext_example now_example [] doc_null_content
      = \<lparr>documentId = ''batch-4'', documentTitle = ''Bad Doc'', b_error = None,
         b_decay_detected = True, b_confidence_score = 9 / 10, b_risk_level = ''low'',
         b_decay_reasons = decay_reasons verdict_low_support,
         b_analysis = Some verdict_low_support\<rparr>"
    unfolding batch_item_def analyze_null_content
    by (simp add: verdict_low_support_def doc_null_content_def)
  show ?thesis
    unfolding batchAnalyze_def by (simp add: g n) (simp add: verdict_low_support_def)
qed

text \<open>
  C9 (amended): \<open>analyzeDocument\<close> leaves the list of versions, the list of related
  documents and the candidate pool unchanged, and leaves the document unchanged when it
  already has an embedding. When the document has no embedding, the call stores the
  vector it obtains in \<open>document.embedding\<close> (no other field is written); if obtaining
  the vector throws, nothing is written.
\<close>

theorem analyzeDocument_frame:
  "in_versions (snd (analyzeDocument e x now inp)) = in_versions inp
   \<and> in_relatedDocs (snd (analyzeDocument e x now inp)) = in_relatedDocs inp
   \<and> in_allDocs (snd (analyzeDocument e x now inp)) = in_allDocs inp
   \<and> (embedding (in_document inp) \<noteq> None \<longrightarrow> snd (analyzeDocument e x now inp) = inp)
   \<and> (embedding (in_document inp) = None \<longrightarrow>
        (case getEmbedding e x (content (in_document inp)) of
           Inl err \<Rightarrow> snd (analyzeDocument e x now inp) = inp
         | Inr emb \<Rightarrow> in_document (snd (analyzeDocument e x now inp))
                        = (in_document inp)\<lparr>embedding := Some emb\<rparr>))"
  by (simp add: analyzeDocument_state ensureEmbedding_def split: sum.splits)

text \<open>
  The theorem at a document that has an embedding and at one that has none.
\<close>

theorem analyzeDocument_frame_witness:
  "embedding (in_document (batch_inputs [] (doc_good\<lparr>embedding := Some (Sparse [])\<rparr>))) \<noteq> None
   \<and> snd (analyzeDocument default_env ext_example now_example
            (batch_inputs [] (doc_good\<lparr>embedding := Some (Sparse [])\<rparr>)))
       = batch_inputs [] (doc_good\<lparr>embedding := Some (Sparse [])\<rparr>)
   \<and> embedding (in_document (batch_inputs [] doc_null_content)) = None
   \<and> getEmbedding default_env ext_example (content (in_document (batch_inputs [] doc_null_content)))
       = Inr (Sparse [])
   \<and> in_document (snd (analyzeDocument default_env ext_example now_example
                         (batch_inputs [] doc_null_content)))
       = doc_null_content\<lparr>embedding := Some (Sparse [])\<rparr>"
proof -
  have a: "embedding (in_document (batch_inputs [] (doc_good\<lparr>embedding := Some (Sparse [])\<rparr>))) \<noteq> None"
    by (simp add: batch_inputs_def)
  have b: "embedding (in_document (batch_inputs [] doc_null_content)) = None"
    and c: "content doc_null_content = None"
    and d: "in_document (batch_inputs [] doc_null_content) = doc_null_content"
    by (simp_all add: batch_inputs_def doc_null_content_def)
  from analyzeDocument_frame [of default_env ext_example now_example
         "batch_inputs [] (doc_good\<lparr>embedding := Some (Sparse [])\<rparr>)"]
       analyzeDocument_frame [of default_env ext_example now_example
         "batch_inputs [] doc_null_content"] a b
  show ?thesis by (simp add: c d getEmbedding_null)
qed

text \<open>
  C9, as stated, fails for a document without an embedding: after the call its
  \<open>embedding\<close> field holds the computed vector.
\<close>

theorem analyzeDocument_writes_embedding:
  "embedding doc_good = None
   \<and> embedding (in_document (snd (analyzeDocument default_env ext_example now_example
                                    (batch_inputs [] doc_good))))
       = Some (Sparse [(''content'', 307 / 1000)])
   \<and> snd (analyzeDocument default_env ext_example now_example (batch_inputs [] doc_good))
       \<noteq> batch_inputs [] doc_good"
proof -
  have e: "embedding doc_good = None" by (simp add: doc_good_def)
  have i: "in_document (batch_inputs [] doc_good) = doc_good" by (simp add: batch_inputs_def)
  have s: "in_document (snd (analyzeDocument default_env ext_example now_example
                                    (batch_inputs [] doc_good)))
      = doc_good\<lparr>embedding := Some (Sparse [(''content'', 307 / 1000)])\<rparr>"
    by (simp add: analyze_good)
  have n: "embedding (in_document (snd (analyzeDocument default_env ext_example now_example
                                    (batch_inputs [] doc_good))))
      \<noteq> embedding (in_document (batch_inputs [] doc_good))"
    unfolding s i by (simp add: e)
  then have "snd (analyzeDocument default_env ext_example now_example (batch_inputs [] doc_good))
       \<noteq> batch_inputs [] doc_good" by metis
  then show ?thesis using e s by simp
qed

section \<open>Properties of the similarity and of the related-document finder\<close>

lemma decimals_0 [simp]: "decimals n 0"
  unfolding decimals_def by (rule exI [of _ 0]) simp

lemma cosineSimilarity_rounded: "decimals 3 (cosineSimilarity a b)"
  by (auto simp: cosineSimilarity_def Let_def round3_decimals split: option.splits)

lemma cosineSimilarity_empty:
  assumes "keys v1 = [] \<or> keys v2 = []"
  shows "cosineSimilarity (Some v1) (Some v2) = 0"
  using assms by (auto simp: cosineSimilarity_def)

lemma cosineSimilarity_zero_norm:
  assumes "sum_list (map (\<lambda>t. get_or_0 v1 t * get_or_0 v1 t) (remdups (keys v1 @ keys v2))) = 0
     \<or> sum_list (map (\<lambda>t. get_or_0 v2 t * get_or_0 v2 t) (remdups (keys v1 @ keys v2))) = 0"
  shows "cosineSimilarity (Some v1) (Some v2) = 0"
  using assms by (auto simp: cosineSimilarity_def Let_def)

lemma semanticDifference_rounded:
  "calculateSemanticDifference lt t1 t2
     = round3 (1 - cosineSimilarity (Some (generateTfIdfEmbedding lt t1))
                                     (Some (generateTfIdfEmbedding lt t2)))
   \<and> decimals 3 (calculateSemanticDifference lt t1 t2)"
  by (simp add: calculateSemanticDifference_def Let_def round3_decimals)

lemma sqrt_169: "sqrt 169 = 13"
proof -
  have "sqrt ((13::real)\<^sup>2) = 13" by simp
  then show ?thesis by simp
qed

lemma not_decimals_5_13: "\<not> decimals 3 (5 / 13)"
proof
  assume "decimals 3 (5 / 13)"
  then obtain k :: int where "(5::real) / 13 = real_of_int k / 10 ^ 3"
    unfolding decimals_def by blast
  then have "real_of_int (13 * k) = real_of_int 5000" by simp
  then have "13 * k = 5000" by (simp only: of_int_eq_iff)
  then have "(13::int) dvd 5000" by (metis dvd_triv_left)
  then show False by simp
qed

lemma show_nat_0: "show_nat 0 = ''0''"
  by code_simp

lemma show_nat_1: "show_nat (Suc 0) = ''1''"
  by code_simp

lemma entries_dense2: "entries (Dense [a, b]) = [(''0'', a), (''1'', b)]"
  by (simp add: entries_def show_nat_0 show_nat_1 upt_rec del: show_nat.simps)

lemma cosine_dense_example:
  "cosineSimilarity (Some (Dense [1, 0])) (Some (Dense [5, 12])) = 385 / 1000"
proof -
  have k: "keys (Dense [a, b]) = [''0'', ''1'']" for a b
    by (simp add: keys_def entries_dense2)
  have r: "round3 (5 / 13) = 385 / 1000"
    by (simp add: round3_def Math_round_def)
  show ?thesis
    by (simp add: cosineSimilarity_def k get_or_0_def entries_dense2 sqrt_169 r)
qed

text \<open>
  C8 holds for \<open>cosineSimilarity\<close> (the lemmas above: 0 for an empty vector or
  a zero norm, a result with 3 decimals, and the semantic difference \<open>1 - similarity\<close>
  rounded to 3 decimals), which reads sparse and dense vectors alike. The dense branch of
  \<open>calculateSimilarity\<close> misses the rounding that its sparse branch has: for the
  arrays \<open>[1, 0]\<close> and \<open>[5, 12]\<close> it returns 5/13, which has no 3-decimal notation,
  where \<open>cosineSimilarity\<close> returns 0.385. And it returns NaN, not 0, when the second
  array is empty and the first is not.
\<close>

theorem dense_similarity_not_rounded:
  "calculateSimilarity (Dense [1, 0]) (Dense [5, 12]) = Num (5 / 13)
   \<and> \<not> decimals 3 (5 / 13)
   \<and> cosineSimilarity (Some (Dense [1, 0])) (Some (Dense [5, 12])) = 385 / 1000
   \<and> calculateSimilarity (Dense [1]) (Dense []) = NaN"
  using not_decimals_5_13 cosine_dense_example
  by (simp add: calculateSimilarity_def index_def sqrt_169)

lemma sorted_falling:
  "sorted_wrt (\<lambda>a b. snd b \<le> snd a) (sort_key (\<lambda>(d, s). - s) (xs :: ('a \<times> real) list))"
proof -
  have "sorted (map (\<lambda>(d, s). - s) (sort_key (\<lambda>(d, s). - s) xs))"
    by (rule sorted_sort_key)
  then show ?thesis
    by (simp add: sorted_map case_prod_unfold)
qed

lemma filter_length_mono:
  assumes "\<And>x. P x \<Longrightarrow> Q x"
  shows "length (filter P xs) \<le> length (filter Q xs)"
  using assms by (induction xs) auto

text \<open>
  C7: every result of \<open>findRelatedDocuments\<close> is a candidate other than the subject
  (by id), paired with its similarity to the subject, which is at or above the threshold;
  the results are exactly the candidates other than the subject whose similarity is at
  or above the threshold, each as often as it is in the pool; they are sorted by falling
  similarity; and a higher threshold never returns more results than a lower one.
\<close>

theorem findRelatedDocuments_spec:
  "(\<forall>r \<in> set (findRelatedDocuments lt document allDocs threshold).
        doc_id (fst r) \<noteq> doc_id document
        \<and> snd r = similarityTo lt document (fst r)
        \<and> threshold \<le> snd r)
   \<and> mset (map fst (findRelatedDocuments lt document allDocs threshold))
       = mset (filter (\<lambda>d. doc_id d \<noteq> doc_id document
                            \<and> threshold \<le> similarityTo lt document d) allDocs)
   \<and> sorted_wrt (\<lambda>a b. snd b \<le> snd a) (findRelatedDocuments lt document allDocs threshold)
   \<and> (threshold \<le> threshold' \<longrightarrow>
        length (findRelatedDocuments lt document allDocs threshold')
          \<le> length (findRelatedDocuments lt document allDocs threshold))"
proof -
  have m: "mset (map fst (findRelatedDocuments lt document allDocs threshold))
       = mset (filter (\<lambda>d. doc_id d \<noteq> doc_id document
                            \<and> threshold \<le> similarityTo lt document d) allDocs)"
    unfolding findRelatedDocuments_def
    by (simp add: filter_map comp_def case_prod_unfold conj_commute multiset.map_comp)
  have a: "\<forall>r \<in> set (findRelatedDocuments lt document allDocs threshold).
        doc_id (fst r) \<noteq> doc_id document
        \<and> snd r = similarityTo lt document (fst r)
        \<and> threshold \<le> snd r"
    by (auto simp: findRelatedDocuments_def)
  have s: "sorted_wrt (\<lambda>a b. snd b \<le> snd a) (findRelatedDocuments lt document allDocs threshold)"
    unfolding findRelatedDocuments_def by (rule sorted_falling)
  have l: "threshold \<le> threshold' \<longrightarrow>
        length (findRelatedDocuments lt document allDocs threshold')
          \<le> length (findRelatedDocuments lt document allDocs threshold)"
    unfolding findRelatedDocuments_def
    by (auto intro!: filter_length_mono)
  show ?thesis
    using a m s l by blast
qed


lemma related_example:
  "findRelatedDocuments listTerms_example subject_example pool_example (3 / 10)
     = [(doc_vec ''doc-2'' (Sparse [(''deploy'', 1)]), 1)]"
proof -
  have r: "round3 1 = 1" by (simp add: round3_def Math_round_def)
  have a: "cosineSimilarity (Some (Sparse [(''deploy'', 1)])) (Some (Sparse [(''deploy'', 1)])) = 1"
    by (simp add: cosineSimilarity_def keys_def entries_def get_or_0_def r)
  have b: "cosineSimilarity (Some (Sparse [(''deploy'', 1)])) (Some (Sparse [(''recipes'', 1)])) = 0"
    by (simp add: cosineSimilarity_def keys_def entries_def get_or_0_def)
  show ?thesis
    by (simp add: findRelatedDocuments_def subject_example_def pool_example_def doc_vec_def
        similarityTo_def docVector_def a b)
qed

text \<open>
  The theorem at a pool of the subject itself, a document with the same vector and an
  unrelated one, with the thresholds 0.3 and 0.9.
\<close>

theorem findRelatedDocuments_spec_witness:
  "(doc_vec ''doc-2'' (Sparse [(''deploy'', 1)]), 1)
     \<in> set (findRelatedDocuments listTerms_example subject_example pool_example (3 / 10))
   \<and> doc_id (doc_vec ''doc-2'' (Sparse [(''deploy'', 1)])) \<noteq> doc_id subject_example
   \<and> (3 / 10 :: real) \<le> 1
   \<and> (3 / 10 :: real) \<le> 9 / 10
   \<and> length (findRelatedDocuments listTerms_example subject_example pool_example (9 / 10))
        \<le> length (findRelatedDocuments listTerms_example subject_example pool_example (3 / 10))"
proof -
  have m: "(doc_vec ''doc-2'' (Sparse [(''deploy'', 1)]), 1)
     \<in> set (findRelatedDocuments listTerms_example subject_example pool_example (3 / 10))"
    by (simp add: related_example)
  have t: "(3 / 10 :: real) \<le> 9 / 10" by simp
  from findRelatedDocuments_spec [of listTerms_example subject_example pool_example "3 / 10" "9 / 10"]
  have "doc_id (fst (doc_vec ''doc-2'' (Sparse [(''deploy'', 1)]), 1::real)) \<noteq> doc_id subject_example"
    and "length (findRelatedDocuments listTerms_example subject_example pool_example (9 / 10))
        \<le> length (findRelatedDocuments listTerms_example subject_example pool_example (3 / 10))"
    using m t by blast+
  then show ?thesis using m by simp
qed

section \<open>Properties of the version drift analyzer\<close>

lemma round3_02 [simp]: "round3 (1 / 5) = 1 / 5"
  using round3_milli [of 200] by simp

lemma round3_01 [simp]: "round3 (1 / 10) = 1 / 10"
  using round3_milli [of 100] by simp

text \<open>
  The loop over versions that are all present: what the running maximum reaches, and
  the significant changes, which are those of the versions with a drift of at least 0.4,
  in the order of the versions.
\<close>

lemma drift_loop_present:
  "\<exists>m' cs'. drift_loop lt d (map Some vs) m cs = Inr (m', cs')
     \<and> (\<forall>c. c \<le> m' \<longleftrightarrow>
            c \<le> m \<or> (\<exists>v \<in> set vs. c \<le> calculateSemanticDifference lt (content d) (v_content v)))
     \<and> map (\<lambda>c. (fromVersion c, toVersion c, ch_driftScore c))
           (filter (\<lambda>c. ch_severity c = ''significant'') cs')
        = map (\<lambda>c. (fromVersion c, toVersion c, ch_driftScore c))
            (filter (\<lambda>c. ch_severity c = ''significant'') cs)
          @ map (\<lambda>v. (versionNumber v, currentVersion d,
                        calculateSemanticDifference lt (content d) (v_content v)))
              (filter (\<lambda>v. 4 / 10 \<le> calculateSemanticDifference lt (content d) (v_content v)) vs)"
proof (induction vs arbitrary: m cs)
  case Nil
  then show ?case by simp
next
  case (Cons v vs)
  define dr where "dr = calculateSemanticDifference lt (content d) (v_content v)"
  define m1 where "m1 = (if dr > m then dr else m)"
  define cs1 where "cs1 = (if dr \<ge> MODERATE_DRIFT_THRESHOLD
            then cs @ [\<lparr>fromVersion = versionNumber v,
                             toVersion = currentVersion d,
                             ch_driftScore = dr,
                             ch_severity = (if dr \<ge> SIGNIFICANT_DRIFT_THRESHOLD
                                            then ''significant'' else ''moderate''),
                             ch_summary = (case v_summary v of
                                 Some t \<Rightarrow> if t = [] then ''Version '' @ show_int (versionNumber v) else t
                               | None \<Rightarrow> ''Version '' @ show_int (versionNumber v))\<rparr>]
            else cs)"
  have step: "drift_loop lt d (map Some (v # vs)) m cs = drift_loop lt d (map Some vs) m1 cs1"
    by (simp add: Let_def dr_def m1_def cs1_def)
  have sig: "map (\<lambda>c. (fromVersion c, toVersion c, ch_driftScore c))
           (filter (\<lambda>c. ch_severity c = ''significant'') cs1)
        = map (\<lambda>c. (fromVersion c, toVersion c, ch_driftScore c))
            (filter (\<lambda>c. ch_severity c = ''significant'') cs)
          @ (if 4 / 10 \<le> dr then [(versionNumber v, currentVersion d, dr)] else [])"
    by (simp add: cs1_def SIGNIFICANT_DRIFT_THRESHOLD_def MODERATE_DRIFT_THRESHOLD_def)
  have mx: "c \<le> m1 \<longleftrightarrow> c \<le> m \<or> c \<le> dr" for c
    by (auto simp: m1_def)
  from Cons.IH [of m1 cs1] obtain m' cs' where
    r: "drift_loop lt d (map Some vs) m1 cs1 = Inr (m', cs')"
    and a: "\<forall>c. c \<le> m' \<longleftrightarrow>
            c \<le> m1 \<or> (\<exists>v \<in> set vs. c \<le> calculateSemanticDifference lt (content d) (v_content v))"
    and b: "map (\<lambda>c. (fromVersion c, toVersion c, ch_driftScore c))
           (filter (\<lambda>c. ch_severity c = ''significant'') cs')
        = map (\<lambda>c. (fromVersion c, toVersion c, ch_driftScore c))
            (filter (\<lambda>c. ch_severity c = ''significant'') cs1)
          @ map (\<lambda>v. (versionNumber v, currentVersion d,
                        calculateSemanticDifference lt (content d) (v_content v)))
              (filter (\<lambda>v. 4 / 10 \<le> calculateSemanticDifference lt (content d) (v_content v)) vs)"
    by blast
  have a': "\<forall>c. c \<le> m' \<longleftrightarrow>
            c \<le> m \<or> (\<exists>v \<in> set (v # vs). c \<le> calculateSemanticDifference lt (content d) (v_content v))"
    using a mx by (auto simp: dr_def)
  have b': "map (\<lambda>c. (fromVersion c, toVersion c, ch_driftScore c))
           (filter (\<lambda>c. ch_severity c = ''significant'') cs')
        = map (\<lambda>c. (fromVersion c, toVersion c, ch_driftScore c))
            (filter (\<lambda>c. ch_severity c = ''significant'') cs)
          @ map (\<lambda>v. (versionNumber v, currentVersion d,
                        calculateSemanticDifference lt (content d) (v_content v)))
              (filter (\<lambda>v. 4 / 10 \<le> calculateSemanticDifference lt (content d) (v_content v)) (v # vs))"
    unfolding b sig by (simp add: dr_def)
  show ?case
    unfolding step using r a' b' by blast
qed


lemma find_filter: "find P xs = (case filter P xs of [] \<Rightarrow> None | x # rest \<Rightarrow> Some x)"
  by (induction xs) auto

lemma Max_ge_image:
  assumes "vs \<noteq> []"
  shows "(c::real) \<le> Max (f ` set vs) \<longleftrightarrow> (\<exists>v \<in> set vs. c \<le> f v)"
  using assms by (subst Max_ge_iff) auto

text \<open>
  C6: for every document and every non-empty list of prior versions, the penalty is 0.2
  if the maximum semantic difference between the current content and a version is at
  least 0.4, 0.1 if that maximum is in [0.25, 0.4), and 0 otherwise. When at least one
  version has a drift of at least 0.4, the result carries one decay reason, of type
  \<open>version_drift\<close>, and it names the first such version of the list (the most recent
  one, the versions being supplied newest first), however many are significant; when
  none has, it carries no reason.
\<close>

theorem analyzeVersionDrift_spec:
  assumes "vs \<noteq> []"
  shows "\<exists>r. analyzeVersionDrift lt d (map Some vs) = Inr r
    \<and> d_penalty r =
        (if 4 / 10 \<le> Max ((\<lambda>v. calculateSemanticDifference lt (content d) (v_content v)) ` set vs)
         then 2 / 10
         else if 25 / 100 \<le> Max ((\<lambda>v. calculateSemanticDifference lt (content d) (v_content v)) ` set vs)
         then 1 / 10 else 0)
    \<and> d_hasSignificantDrift r
        = (\<exists>v \<in> set vs. 4 / 10 \<le> calculateSemanticDifference lt (content d) (v_content v))
    \<and> d_decayReason r =
        (case find (\<lambda>v. 4 / 10 \<le> calculateSemanticDifference lt (content d) (v_content v)) vs of
           None \<Rightarrow> None
         | Some v \<Rightarrow>
             Some \<lparr>rtype = ''version_drift'',
               description = ''Significant semantic change detected from version ''
                 @ show_int (versionNumber v) @ '' to '' @ show_int (currentVersion d)
                 @ '' (drift score: ''
                 @ show_num3 (calculateSemanticDifference lt (content d) (v_content v)) @ '')'',
               sources = []\<rparr>)"
proof -
  let ?dr = "\<lambda>v. calculateSemanticDifference lt (content d) (v_content v)"
  let ?P = "\<lambda>v. 4 / 10 \<le> ?dr v"
  let ?proj = "\<lambda>c. (fromVersion c, toVersion c, ch_driftScore c)"
  from drift_loop_present [of lt d vs 0 "[]"] obtain m' cs' where
    r: "drift_loop lt d (map Some vs) 0 [] = Inr (m', cs')"
    and a: "\<forall>c. c \<le> m' \<longleftrightarrow> c \<le> 0 \<or> (\<exists>v \<in> set vs. c \<le> ?dr v)"
    and b: "map ?proj (filter (\<lambda>c. ch_severity c = ''significant'') cs')
        = map (\<lambda>v. (versionNumber v, currentVersion d, ?dr v)) (filter ?P vs)"
    by auto
  have m4: "4 / 10 \<le> m' \<longleftrightarrow> 4 / 10 \<le> Max (?dr ` set vs)"
    using a Max_ge_image [OF assms, of "4 / 10" ?dr] by simp
  have m25: "25 / 100 \<le> m' \<longleftrightarrow> 25 / 100 \<le> Max (?dr ` set vs)"
    using a Max_ge_image [OF assms, of "25 / 100" ?dr] by simp
  have ex: "(\<exists>v \<in> set vs. ?P v) \<longleftrightarrow> filter ?P vs \<noteq> []"
    by (simp add: filter_empty_conv)
  have ne: "map Some vs \<noteq> []" using assms by simp
  show ?thesis
  proof (cases "filter (\<lambda>c. ch_severity c = ''significant'') cs'")
    case Nil
    then have "filter ?P vs = []" using b by simp
    then show ?thesis
      using Nil r m4 m25 ne ex
      by (simp add: analyzeVersionDrift_def Let_def find_filter
          SIGNIFICANT_DRIFT_THRESHOLD_def MODERATE_DRIFT_THRESHOLD_def)
  next
    case (Cons c rest)
    then obtain v rest' where f: "filter ?P vs = v # rest'"
      and c: "?proj c = (versionNumber v, currentVersion d, ?dr v)"
      using b by (cases "filter ?P vs") auto
    show ?thesis
      using Cons r m4 m25 ne ex f c
      by (simp add: analyzeVersionDrift_def Let_def find_filter
          SIGNIFICANT_DRIFT_THRESHOLD_def MODERATE_DRIFT_THRESHOLD_def)
  qed
qed


lemma round3_1 [simp]: "round3 1 = 1"
  using round3_milli [of 1000] by simp

lemma embedding_word:
  "generateTfIdfEmbedding listTerms_example (Some ''alpha'') = Sparse [(''alpha'', 307 / 1000)]"
  "generateTfIdfEmbedding listTerms_example (Some ''beta'') = Sparse [(''beta'', 307 / 1000)]"
  "generateTfIdfEmbedding listTerms_example (Some ''gamma'') = Sparse [(''gamma'', 307 / 1000)]"
  by code_simp+

lemma cosine_single:
  assumes "w > 0"
  shows "cosineSimilarity (Some (Sparse [(a, w)])) (Some (Sparse [(b, w)])) = (if a = b then 1 else 0)"
  using assms by (simp add: cosineSimilarity_def keys_def entries_def get_or_0_def)

lemma drift_examples:
  "calculateSemanticDifference listTerms_example (Some ''alpha'') (Some ''alpha'') = 0"
  "calculateSemanticDifference listTerms_example (Some ''alpha'') (Some ''beta'') = 1"
  "calculateSemanticDifference listTerms_example (Some ''alpha'') (Some ''gamma'') = 1"
  by (simp_all add: calculateSemanticDifference_def embedding_word cosine_single)

lemma drift_strings:
  "show_int 2 = ''2''" "show_int 4 = ''4''" "show_num3 1 = ''1''"
  by code_simp+

text \<open>
  The theorem at a document with three versions, of which the second and the third are
  significant: the reason names the second, version 2.
\<close>

theorem analyzeVersionDrift_spec_witness:
  "versions_example \<noteq> []
   \<and> (\<exists>r. analyzeVersionDrift listTerms_example doc_versioned (map Some versions_example) = Inr r
        \<and> d_penalty r = 2 / 10
        \<and> d_hasSignificantDrift r
        \<and> d_decayReason r =
            Some \<lparr>rtype = ''version_drift'',
              description = ''Significant semantic change detected from version 2 to 4 (drift score: 1)'',
              sources = []\<rparr>)"
proof -
  have ne: "versions_example \<noteq> []" by (simp add: versions_example_def)
  from analyzeVersionDrift_spec [OF ne, of listTerms_example doc_versioned]
  show ?thesis
    using ne
    by (simp add: versions_example_def version_example_def doc_versioned_def drift_examples
        drift_strings)
qed

section \<open>Properties of the contradiction detector\<close>

lemma round3_ge:
  assumes "real_of_int k / 1000 \<le> x"
  shows "real_of_int k / 1000 \<le> round3 x"
proof -
  have "real_of_int k \<le> x * 1000 + 1 / 2" using assms by simp
  then have "k \<le> Math_round (x * 1000)"
    unfolding Math_round_def by (simp add: le_floor_iff)
  then show ?thesis unfolding round3_def by simp
qed

lemma update_values:
  assumes "(k', w') \<in> set (AList.update k w al)"
  shows "(k', w') = (k, w) \<or> (k', w') \<in> set al"
  using assms by (induction al) (auto split: if_splits)

lemma update_not_empty: "AList.update k w al \<noteq> []"
  by (cases al) auto

text \<open>
  The vector of a text: every weight kept is above 0.1 before rounding, so at least 0.1
  after it; and the vector is not empty as soon as the statistics hold one such term.
\<close>

lemma fold_terms_values:
  assumes "\<forall>(k, w) \<in> set acc. 0 < w"
    and "(k, w) \<in> set (fold (\<lambda>(term, w) terms.
            if w > 0.1 then AList.update term (round3 w) terms else terms) xs acc)"
  shows "0 < (w::real)"
  using assms
proof (induction xs arbitrary: acc)
  case Nil
  then show ?case by auto
next
  case (Cons x xs)
  obtain t u where x: "x = (t, u)" by (cases x)
  show ?case
  proof (cases "u > 0.1")
    case True
    have "1 / 10 \<le> round3 u" using round3_ge [of 100 u] True by simp
    then have "\<forall>(k, w) \<in> set (AList.update t (round3 u) acc). 0 < w"
      using Cons.prems(1) update_values [of _ _ t "round3 u" acc] by fastforce
    then show ?thesis
      using Cons.IH [of "AList.update t (round3 u) acc"] Cons.prems(2) x True by simp
  next
    case False
    then show ?thesis
      using Cons.IH [of acc] Cons.prems x by simp
  qed
qed

lemma fold_terms_not_empty:
  assumes "acc \<noteq> [] \<or> (\<exists>(t, w) \<in> set xs. w > 0.1)"
  shows "fold (\<lambda>(term, w) terms.
            if w > (0.1::real) then AList.update term (round3 w) terms else terms) xs acc \<noteq> []"
  using assms
proof (induction xs arbitrary: acc)
  case Nil
  then show ?case by simp
next
  case (Cons x xs)
  obtain t u where x: "x = (t, u)" by (cases x)
  show ?case
  proof (cases "u > 0.1")
    case True
    then show ?thesis
      using Cons.IH [of "AList.update t (round3 u) acc"] x update_not_empty by simp
  next
    case False
    then have "acc \<noteq> [] \<or> (\<exists>(t, w) \<in> set xs. w > 0.1)" using Cons.prems x by auto
    then show ?thesis using Cons.IH [of acc] x False by simp
  qed
qed

lemma sum_list_pos:
  assumes "xs \<noteq> []" and "\<forall>x \<in> set xs. 0 < f x"
  shows "0 < sum_list (map f xs :: real list)"
  using assms
proof (induction xs)
  case Nil
  then show ?case by simp
next
  case (Cons a xs)
  show ?case
  proof (cases "xs = []")
    case True
    then show ?thesis using Cons.prems by simp
  next
    case False
    then have "0 < sum_list (map f xs)" using Cons by simp
    moreover have "0 < f a" using Cons.prems by simp
    ultimately show ?thesis by simp
  qed
qed

lemma remdups_twice: "remdups (xs @ xs) = remdups xs"
proof -
  have "filter (\<lambda>x. x \<notin> set xs) xs = []" by (simp add: filter_empty_conv)
  then show ?thesis by (simp add: remdups_append)
qed

text \<open>
  A non-empty vector of positive weights has similarity 1 to itself.
\<close>

lemma cosine_self:
  assumes "al \<noteq> []" and "\<forall>(k, w) \<in> set al. 0 < w"
  shows "cosineSimilarity (Some (Sparse al)) (Some (Sparse al)) = 1"
proof -
  let ?ks = "keys (Sparse al)"
  let ?g = "\<lambda>t. get_or_0 (Sparse al) t * get_or_0 (Sparse al) t"
  have ks: "?ks \<noteq> []" using assms(1) by (simp add: keys_def entries_def)
  have all: "remdups (?ks @ ?ks) = ?ks"
    by (simp add: keys_def remdups_twice)
  have pos: "0 < ?g t" if "t \<in> set ?ks" for t
  proof -
    from that have "t \<in> fst ` set al" by (simp add: keys_def entries_def)
    then have "map_of al t \<noteq> None" by (simp add: map_of_eq_None_iff)
    then obtain w where "map_of al t = Some w" by blast
    moreover from this have "(t, w) \<in> set al" by (rule map_of_SomeD)
    then have "0 < w" using assms(2) by blast
    ultimately show ?thesis by (simp add: get_or_0_def entries_def)
  qed
  define N where "N = sum_list (map ?g ?ks)"
  have n: "0 < N"
    unfolding N_def by (rule sum_list_pos [OF ks]) (simp add: pos)
  have c: "cosineSimilarity (Some (Sparse al)) (Some (Sparse al))
      = (if sqrt N * sqrt N = 0 then 0 else round3 (N / (sqrt N * sqrt N)))"
    by (simp add: cosineSimilarity_def Let_def all ks N_def)
  have r: "round3 1 = 1" using round3_milli [of 1000] by simp
  show ?thesis
    unfolding c using n by (simp add: r)
qed


lemma embedding_of_text:
  assumes "\<exists>term w. (term, w) \<in> set (lt (toLowerCase t)) \<and> w > 1 / 10" and "t \<noteq> []"
  shows "\<exists>al. generateTfIdfEmbedding lt (Some t) = Sparse al \<and> al \<noteq> []
           \<and> (\<forall>(k, w) \<in> set al. 0 < w)"
proof -
  let ?al = "fold (\<lambda>(term, w) terms.
            if w > (0.1::real) then AList.update term (round3 w) terms else terms)
          (lt (toLowerCase t)) []"
  have "?al \<noteq> []"
    using assms(1) by (intro fold_terms_not_empty) auto
  moreover have "\<forall>(k, w) \<in> set ?al. 0 < w"
    using fold_terms_values [of "[]" _ _ "lt (toLowerCase t)"] by auto
  ultimately show ?thesis
    using assms(2) by (simp add: generateTfIdfEmbedding_def)
qed

lemma negation_loop_none:
  assumes "list_all (\<lambda>(pos, neg). \<not> ((test_word pos None s1 \<and> test_any neg s2)
                                        \<or> (test_any neg s1 \<and> test_word pos None s2))) ps"
  shows "negation_loop lt s1 s2 ps = None"
  using assms by (induction ps) auto

lemma deploy_lower:
  "toLowerCase ''Deployments must complete within 5 minutes''
     = ''deployments must complete within 5 minutes''"
  "toLowerCase ''Deployments must complete within 15 minutes''
     = ''deployments must complete within 15 minutes''"
  "toLowerCase ''deployments must complete within '' = ''deployments must complete within ''"
  by code_simp+

lemma deploy_no_negation:
  "list_all (\<lambda>(pos, neg).
       \<not> ((test_word pos None ''deployments must complete within 5 minutes''
             \<and> test_any neg ''deployments must complete within 15 minutes'')
          \<or> (test_any neg ''deployments must complete within 5 minutes''
             \<and> test_word pos None ''deployments must complete within 15 minutes'')))
     negationPatterns"
  by code_simp

lemma deploy_numbers:
  "matchAll 0 ''deployments must complete within 5 minutes'' = [(''5'', ''minutes'')]"
  "matchAll 0 ''deployments must complete within 15 minutes'' = [(''15'', ''minutes'')]"
  "replace_nums 0 ''deployments must complete within 5 minutes''
     = ''deployments must complete within ''"
  "replace_nums 0 ''deployments must complete within 15 minutes''
     = ''deployments must complete within ''"
  "unit_key ''minutes'' = ''minute''"
  by code_simp+

text \<open>
  The two statements of the example: no negation pattern applies, both name a number of
  minutes, the numbers differ, and without the numbers both are the same text.
\<close>

lemma deploy_statements:
  assumes "\<exists>term w. (term, w) \<in> set (lt ''deployments must complete within '') \<and> w > 1 / 10"
  shows "detectStatementContradiction lt ''Deployments must complete within 5 minutes''
           ''Deployments must complete within 15 minutes''
         = \<lparr>isContradiction = True, score = 1,
            sr_reason = Some ''Numerical conflict: 5 minutes vs 15 minutes''\<rparr>"
proof -
  from embedding_of_text [of lt "''deployments must complete within ''"] assms
  obtain al where al: "generateTfIdfEmbedding lt (Some ''deployments must complete within '') = Sparse al"
    and ne: "al \<noteq> []" and pos: "\<forall>(k, w) \<in> set al. 0 < w"
    by (auto simp: deploy_lower)
  have c: "cosineSimilarity (Some (Sparse al)) (Some (Sparse al)) = 1"
    using cosine_self [OF ne pos] .
  show ?thesis
    unfolding detectStatementContradiction_def deploy_lower Let_def deploy_numbers
    by (simp add: negation_loop_none [OF deploy_no_negation] deploy_numbers al c
        del: matchAll.simps replace_nums.simps)
qed


lemma penalty_positive:
  assumes "c \<in> set cs" and "severity c = ''high''"
  shows "0 < calculateContradictionPenalty cs"
proof -
  let ?h = "length (filter (\<lambda>c. severity c = ''high'') cs)"
  let ?m = "length (filter (\<lambda>c. severity c = ''medium'') cs)"
  have "c \<in> set (filter (\<lambda>c. severity c = ''high'') cs)" using assms by simp
  then have "0 < ?h" by (rule length_pos_if_in_set)
  then have "1 \<le> ?h" by linarith
  then have "1 \<le> real ?h" by (simp only: of_nat_1 [symmetric, where ?'a = real] of_nat_le_iff)
  then have "real_of_int 150 / 1000 \<le> real ?h * 0.15 + real ?m * 0.08" by simp
  then have "real_of_int 150 / 1000 \<le> round3 (real ?h * 0.15 + real ?m * 0.08)"
    by (rule round3_ge)
  then have "0 < min (4 / 10) (round3 (real ?h * 0.15 + real ?m * 0.08))" by simp
  moreover have "cs \<noteq> []" using assms(1) by auto
  ultimately show ?thesis by (simp add: calculateContradictionPenalty_def Let_def)
qed

text \<open>
  C5: let the key statements of the subject include "Deployments must complete within
  5 minutes", let a related document be updated later than the subject and let its key
  statements include "Deployments must complete within 15 minutes". Provided the TF-IDF
  statistics give at least one term a weight above 0.1 for the text both statements
  share, the numeric-conflict rule flags the pair (same unit, different numbers,
  similarity 1 > 0.4 without the numbers), \<open>detectContradictions\<close> returns
  \<open>hasContradictions = true\<close> with a penalty above 0, and a decay reason of type
  \<open>contradiction\<close> cites the id of the related document.
\<close>

theorem detectContradictions_numeric_conflict:
  assumes "related \<in> set relatedDocs"
    and "''Deployments must complete within 5 minutes''
           \<in> set (extractKeyStatements (content document))"
    and "''Deployments must complete within 15 minutes''
           \<in> set (extractKeyStatements (content related))"
    and "updatedAt document = Time t1" and "updatedAt related = Time t2" and "t1 < t2"
    and "\<exists>term w. (term, w) \<in> set (lt ''deployments must complete within '') \<and> w > 1 / 10"
  shows "detectStatementContradiction lt ''Deployments must complete within 5 minutes''
           ''Deployments must complete within 15 minutes''
         = \<lparr>isContradiction = True, score = 1,
            sr_reason = Some ''Numerical conflict: 5 minutes vs 15 minutes''\<rparr>
    \<and> c_hasContradictions (detectContradictions lt document relatedDocs)
    \<and> 0 < c_penalty (detectContradictions lt document relatedDocs)
    \<and> (\<exists>rs r. c_decayReasons (detectContradictions lt document relatedDocs) = Some rs
           \<and> r \<in> set rs \<and> rtype r = ''contradiction'' \<and> sources r = [doc_id related])"
proof -
  let ?c = "\<lparr>this_statement = ''Deployments must complete within 5 minutes'',
             this_documentId = doc_id document,
             with_statement = ''Deployments must complete within 15 minutes'',
             with_documentId = doc_id related, with_documentTitle = doc_title related,
             severity = ''high'',
             c_reason = Some ''Numerical conflict: 5 minutes vs 15 minutes''\<rparr>"
  let ?cs = "concat (map (contradictions_with lt document
                 (extractKeyStatements (content document))) relatedDocs)"
  have st: "detectStatementContradiction lt ''Deployments must complete within 5 minutes''
           ''Deployments must complete within 15 minutes''
         = \<lparr>isContradiction = True, score = 1,
            sr_reason = Some ''Numerical conflict: 5 minutes vs 15 minutes''\<rparr>"
    using assms(7) by (rule deploy_statements)
  have nd: "\<not> date_lt (updatedAt related) (updatedAt document)"
    using assms(4-6) by (simp add: date_lt_def new_Date_def)
  have "?c \<in> set (contradictions_with lt document (extractKeyStatements (content document)) related)"
    unfolding contradictions_with_def Let_def using nd assms(2,3)
    by (auto simp: st intro!: bexI [of _ "''Deployments must complete within 5 minutes''"]
        bexI [of _ "''Deployments must complete within 15 minutes''"])
  then have cin: "?c \<in> set ?cs" using assms(1) by auto
  have ne: "?cs \<noteq> []"
    using length_pos_if_in_set [OF cin, unfolded length_greater_0_conv] .
  have rne: "relatedDocs \<noteq> []" using assms(1) by auto
  have p: "0 < calculateContradictionPenalty ?cs"
    using penalty_positive [OF cin] by simp
  have r: "contradiction_reason ?c \<in> set (map contradiction_reason ?cs)"
    unfolding set_map using cin by (rule imageI)
  have rt: "rtype (contradiction_reason ?c) = ''contradiction''"
    and rs: "sources (contradiction_reason ?c) = [doc_id related]"
    by (simp_all add: contradiction_reason_def)
  have h: "c_hasContradictions (detectContradictions lt document relatedDocs)"
    using rne ne by (simp add: detectContradictions_def Let_def)
  have pp: "0 < c_penalty (detectContradictions lt document relatedDocs)"
    using rne p by (simp add: detectContradictions_def Let_def)
  have dr: "c_decayReasons (detectContradictions lt document relatedDocs)
      = Some (map contradiction_reason ?cs)"
    using rne by (simp add: detectContradictions_def Let_def)
  show ?thesis
    using st h pp dr r rt rs by blast
qed


lemma deploy_key_statements:
  "extractKeyStatements (Some ''Deployments must complete within 5 minutes.'')
     = [''Deployments must complete within 5 minutes'']"
  "extractKeyStatements (Some ''Deployments must complete within 15 minutes.'')
     = [''Deployments must complete within 15 minutes'']"
  by code_simp+

lemma deploy_terms:
  "listTerms_example ''deployments must complete within ''
     = [(''deployments'', 307 / 1000), (''must'', 307 / 1000), (''complete'', 307 / 1000),
        (''within'', 307 / 1000)]"
  by code_simp

text \<open>
  The theorem at the two documents of the example, updated on 2024-01-01 and 2024-06-01,
  with the stand-in statistics.
\<close>

theorem detectContradictions_numeric_conflict_witness:
  "doc_deploy_15 \<in> set [doc_deploy_15]
   \<and> ''Deployments must complete within 5 minutes''
        \<in> set (extractKeyStatements (content doc_deploy_5))
   \<and> ''Deployments must complete within 15 minutes''
        \<in> set (extractKeyStatements (content doc_deploy_15))
   \<and> updatedAt doc_deploy_5 = Time 1704067200000
   \<and> updatedAt doc_deploy_15 = Time 1717200000000
   \<and> (1704067200000 :: int) < 1717200000000
   \<and> (''deployments'', 307 / 1000) \<in> set (listTerms_example ''deployments must complete within '')
   \<and> c_hasContradictions (detectContradictions listTerms_example doc_deploy_5 [doc_deploy_15])
   \<and> 0 < c_penalty (detectContradictions listTerms_example doc_deploy_5 [doc_deploy_15])
   \<and> (\<exists>rs r. c_decayReasons (detectContradictions listTerms_example doc_deploy_5 [doc_deploy_15])
                  = Some rs
           \<and> r \<in> set rs \<and> rtype r = ''contradiction'' \<and> sources r = [''doc-2''])"
proof -
  have a: "doc_deploy_15 \<in> set [doc_deploy_15]" by simp
  have b: "''Deployments must complete within 5 minutes''
        \<in> set (extractKeyStatements (content doc_deploy_5))"
    by (simp add: doc_deploy_5_def deploy_key_statements)
  have c: "''Deployments must complete within 15 minutes''
        \<in> set (extractKeyStatements (content doc_deploy_15))"
    by (simp add: doc_deploy_15_def deploy_key_statements)
  have d: "updatedAt doc_deploy_5 = Time 1704067200000"
    and e: "updatedAt doc_deploy_15 = Time 1717200000000"
    and i: "doc_id doc_deploy_15 = ''doc-2''"
    by (simp_all add: doc_deploy_5_def doc_deploy_15_def)
  have f: "(1704067200000 :: int) < 1717200000000" by simp
  have g: "(''deployments'', 307 / 1000) \<in> set (listTerms_example ''deployments must complete within '')"
    by (simp add: deploy_terms)
  then have h: "\<exists>term w. (term, w) \<in> set (listTerms_example ''deployments must complete within '')
      \<and> w > 1 / 10"
    by (intro exI [of _ "''deployments''"] exI [of _ "307 / 1000"]) simp
  from detectContradictions_numeric_conflict
         [where lt = listTerms_example and related = doc_deploy_15
            and relatedDocs = "[doc_deploy_15]" and document = doc_deploy_5,
          OF a b c d e f h]
  show ?thesis using a b c d e g by (simp add: i)
qed

end
